theory Spec2Isabelle
  imports Complex_Main
begin

unbundle bit_operations_syntax

section \<open>The glass map generator of \<^verbatim>\<open>src/flat.tsx\<close>\<close>

text \<open>
  The development embeds \<^verbatim>\<open>generateGlassMaps\<close> (\<^verbatim>\<open>src/flat.tsx\<close>, lines 93 to 271; the
  second application variant of the repository carries the same function, line for line).

  Conventions of the embedding:
  \<^item> \<^verbatim>\<open>width\<close> and \<^verbatim>\<open>height\<close> are pixel counts (the callers pass rounded values), so they
    are of type \<open>int\<close>; every other JavaScript number is a \<open>real\<close>.  Arithmetic is exact:
    the rounding of IEEE doubles and of the \<^verbatim>\<open>Float32Array\<close> stores is not modelled.  Two
    values that the source computes along different formulas can therefore differ in the
    last bit where the model has them equal; the comparison of the two shapes at the end
    asserts an equality only where every operation involved is exact on doubles.
  \<^item> Overflow aside, the source produces \<^verbatim>\<open>NaN\<close> in one place only, the quotient
    \<^verbatim>\<open>-dist / bezel\<close> of line 195 at \<open>bezel = 0\<close> and \<open>dist = 0\<close>.  The real-valued
    definitions are the source's values wherever that quotient is a number;
    \<open>storedHeight\<close> writes the \<^verbatim>\<open>NaN\<close> out.
  \<^item> \<^verbatim>\<open>Math.random\<close> is not a function of the arguments: the permutation table it fills
    (line 128) is an explicit argument \<open>perm\<close>.
  \<^item> The browser is an explicit argument as well: whether \<^verbatim>\<open>canvas.getContext('2d')\<close>
    yields a context, and the PNG payload that \<^verbatim>\<open>canvas.toDataURL\<close> produces from the
    pixels.
  \<^item> Typed arrays are lists, created zero-filled and updated by index exactly where the
    source assigns; the loops are folds over the index ranges in the source's order.
\<close>

subsection \<open>Data\<close>

datatype GlassShapeProfile = Convex | Concave | Flat | Liquid

datatype GlassShape = Rect | Squircle

record GlassMaps =
  surfaceUrl :: string

record Host =
  hasContext2d :: bool
  pngPayload :: "int \<Rightarrow> int \<Rightarrow> nat list \<Rightarrow> string"

text \<open>
  \<^verbatim>\<open>canvas.toDataURL('image/png')\<close> on a canvas with pixels answers a \<^verbatim>\<open>data:\<close> URL
  with the PNG media type followed by the encoded image.
\<close>

definition toDataURL :: "Host \<Rightarrow> int \<Rightarrow> int \<Rightarrow> nat list \<Rightarrow> string" where
  "toDataURL host width height data =
     ''data:image/png;base64,'' @ pngPayload host width height data"

text \<open>
  Line 128: \<^verbatim>\<open>perm[i] = Math.floor(Math.random() * 255)\<close> for the 512 entries of a
  \<^verbatim>\<open>Uint8Array\<close>.  \<^verbatim>\<open>Math.random\<close> lies in \<open>[0, 1)\<close>, so every entry is below 255.
\<close>

definition permOk :: "int list \<Rightarrow> bool" where
  "permOk perm \<longleftrightarrow> length perm = 512 \<and> list_all (\<lambda>v. 0 \<le> v \<and> v < 255) perm"

subsection \<open>Noise (lines 130 to 148)\<close>

definition fade :: "real \<Rightarrow> real" where
  "fade t = t * t * t * (t * (t * 6 - 15) + 10)"

definition lerp :: "real \<Rightarrow> real \<Rightarrow> real \<Rightarrow> real" where
  "lerp t a b = a + t * (b - a)"

definition grad :: "int \<Rightarrow> real \<Rightarrow> real \<Rightarrow> real" where
  "grad hash x y =
     (let h = hash AND 15;
          u = (if h < 8 then x else y);
          v = (if h < 4 then y else if h = 12 \<or> h = 14 then x else 0)
      in (if h AND 1 = 0 then u else - u) + (if h AND 2 = 0 then v else - v))"

definition noise2d :: "int list \<Rightarrow> real \<Rightarrow> real \<Rightarrow> real" where
  "noise2d perm x y =
     (let X = \<lfloor>x\<rfloor> AND 255;
          Y = \<lfloor>y\<rfloor> AND 255;
          xf = x - of_int \<lfloor>x\<rfloor>;
          yf = y - of_int \<lfloor>y\<rfloor>;
          u = fade xf;
          v = fade yf;
          A = perm ! nat X + Y;
          B = perm ! nat (X + 1) + Y
      in lerp v (lerp u (grad (perm ! nat A) xf yf) (grad (perm ! nat B) (xf - 1) yf))
                (lerp u (grad (perm ! nat (A + 1)) xf (yf - 1))
                        (grad (perm ! nat (B + 1)) (xf - 1) (yf - 1))))"

subsection \<open>Stages 1 and 2: geometry and turbulence (lines 150 to 209)\<close>

text \<open>Lines 160 to 166: the sample point \<^verbatim>\<open>(tx, ty)\<close> of pixel \<^verbatim>\<open>(x, y)\<close>.\<close>

definition warpPoint ::
  "int list \<Rightarrow> GlassShapeProfile \<Rightarrow> real \<Rightarrow> int \<Rightarrow> int \<Rightarrow> real \<times> real" where
  "warpPoint perm profile warp x y =
     (let warpScale = 0.02;
          isLiquid = (profile = Liquid);
          warpAmp = warp * (if isLiquid then 15 else 8)
      in if warp > 0 \<or> isLiquid then
           (let n = noise2d perm (of_int x * warpScale) (of_int y * warpScale)
            in (of_int x + n * warpAmp, of_int y + n * warpAmp))
         else (of_int x, of_int y))"

text \<open>Lines 118 to 124 and 168 to 185: the signed distance of a sample point.\<close>

definition sdf :: "int \<Rightarrow> int \<Rightarrow> real \<Rightarrow> GlassShape \<Rightarrow> real \<Rightarrow> real \<Rightarrow> real" where
  "sdf width height radius shape tx ty =
     (let cx = of_int width / 2;
          cy = of_int height / 2;
          r = min radius (of_int (min width height) / 2);
          bx = of_int width / 2 - r;
          by = of_int height / 2 - r
      in if shape = Squircle then
           (let nx = (tx - cx) / (of_int width / 2);
                ny = (ty - cy) / (of_int height / 2);
                val = \<bar>nx\<bar> ^ 4 + \<bar>ny\<bar> ^ 4
            in (val powr 0.25 - 1.0) * (of_int (min width height) / 2))
         else
           (let dx = \<bar>tx - cx\<bar> - bx;
                dy = \<bar>ty - cy\<bar> - by;
                dOuter = sqrt ((max dx 0)\<^sup>2 + (max dy 0)\<^sup>2);
                dInner = min (max dx dy) 0
            in dOuter + dInner - r))"

text \<open>Lines 191 to 200: the height of a distance, before the liquid noise and the clamp.\<close>

definition profileHeight :: "real \<Rightarrow> GlassShapeProfile \<Rightarrow> real \<Rightarrow> real" where
  "profileHeight bezel profile sdist =
     (if sdist < - bezel then 1.0
      else if sdist > 1.0 then 0.0
      else (let t = max 0 (min 1 (- sdist / bezel))
            in if profile = Flat then t
               else if profile = Concave then 1.0 - t ^ 2
               else 1 - (1 - t) ^ 3))"

text \<open>The distance that the loop body computes for pixel \<^verbatim>\<open>(x, y)\<close>: the source's
  variable \<^verbatim>\<open>dist\<close>, written \<open>sdist\<close> below since \<open>dist\<close> is the metric of HOL.\<close>

definition pixelDist ::
  "int list \<Rightarrow> int \<Rightarrow> int \<Rightarrow> real \<Rightarrow> GlassShape \<Rightarrow> GlassShapeProfile \<Rightarrow> real
     \<Rightarrow> int \<Rightarrow> int \<Rightarrow> real" where
  "pixelDist perm width height radius shape profile warp x y =
     (let (tx, ty) = warpPoint perm profile warp x y
      in sdf width height radius shape tx ty)"

text \<open>Lines 157 to 207: the value that the loop body stores at \<^verbatim>\<open>heightMap[idx]\<close>.\<close>

definition pixelHeight ::
  "int list \<Rightarrow> int \<Rightarrow> int \<Rightarrow> real \<Rightarrow> real \<Rightarrow> GlassShape \<Rightarrow> GlassShapeProfile \<Rightarrow> real
     \<Rightarrow> int \<Rightarrow> int \<Rightarrow> real" where
  "pixelHeight perm width height radius bezel shape profile warp x y =
     (let isLiquid = (profile = Liquid);
          sdist = pixelDist perm width height radius shape profile warp x y;
          h = profileHeight bezel profile sdist;
          h' = (if isLiquid \<and> h > 0.8
                then h + noise2d perm (of_int x * 0.015) (of_int y * 0.015) * 0.03
                else h)
      in max 0 (min 1 h'))"

text \<open>
  Line 195 divides by \<^verbatim>\<open>bezel\<close>, and the Bezel Width slider (line 717) starts at 0.  In
  IEEE arithmetic \<^verbatim>\<open>0 / 0\<close> is \<^verbatim>\<open>NaN\<close>, which \<^verbatim>\<open>Math.min\<close>, \<^verbatim>\<open>Math.max\<close>, the easings
  and the clamp of line 207 all hand on, while a nonzero number over 0 is an infinity, which
  the clamp of line 195 takes to 0 or 1.  The definitions above are the source's values
  wherever they are numbers; the three below follow the same lines with \<^verbatim>\<open>NaN\<close> written
  out, as the value \<open>None\<close>.  Line 195, the variable \<^verbatim>\<open>t\<close>:
\<close>

definition slopeT :: "real \<Rightarrow> real \<Rightarrow> real option" where
  "slopeT bezel sdist =
     (if bezel = 0
      then (if sdist = 0 then None else if sdist < 0 then Some 1 else Some 0)
      else Some (max 0 (min 1 (- sdist / bezel))))"

text \<open>Lines 191 to 200, the variable \<^verbatim>\<open>h\<close>:\<close>

definition profileHeightJS :: "real \<Rightarrow> GlassShapeProfile \<Rightarrow> real \<Rightarrow> real option" where
  "profileHeightJS bezel profile sdist =
     (if sdist < - bezel then Some 1.0
      else if sdist > 1.0 then Some 0.0
      else (case slopeT bezel sdist of
              None \<Rightarrow> None
            | Some t \<Rightarrow>
                Some (if profile = Flat then t
                      else if profile = Concave then 1.0 - t ^ 2
                      else 1 - (1 - t) ^ 3)))"

text \<open>
  Lines 157 to 207, the value stored at \<^verbatim>\<open>heightMap[idx]\<close>: the test \<^verbatim>\<open>h > 0.8\<close> is false
  for \<^verbatim>\<open>NaN\<close>, and \<^verbatim>\<open>Math.max(0, Math.min(1, NaN))\<close> is \<^verbatim>\<open>NaN\<close>.
\<close>

definition storedHeight ::
  "int list \<Rightarrow> int \<Rightarrow> int \<Rightarrow> real \<Rightarrow> real \<Rightarrow> GlassShape \<Rightarrow> GlassShapeProfile \<Rightarrow> real
     \<Rightarrow> int \<Rightarrow> int \<Rightarrow> real option" where
  "storedHeight perm width height radius bezel shape profile warp x y =
     (let isLiquid = (profile = Liquid);
          sdist = pixelDist perm width height radius shape profile warp x y
      in case profileHeightJS bezel profile sdist of
           None \<Rightarrow> None
         | Some h \<Rightarrow>
             Some (max 0 (min 1
               (if isLiquid \<and> h > 0.8
                then h + noise2d perm (of_int x * 0.015) (of_int y * 0.015) * 0.03
                else h))))"

text \<open>Lines 114, 115 and 155 to 209: the height map after the first pair of loops.\<close>

definition heightMap0 ::
  "int list \<Rightarrow> int \<Rightarrow> int \<Rightarrow> real \<Rightarrow> real \<Rightarrow> GlassShape \<Rightarrow> GlassShapeProfile \<Rightarrow> real
     \<Rightarrow> real list" where
  "heightMap0 perm width height radius bezel shape profile warp =
     fold (\<lambda>y. fold (\<lambda>x hm.
             hm[nat (y * width + x) :=
                  pixelHeight perm width height radius bezel shape profile warp x y])
           [0..width - 1])
       [0..height - 1]
       (replicate (nat (width * height)) 0)"

subsection \<open>Stage 3: erosion (lines 211 to 238)\<close>

text \<open>
  The innermost loops (lines 218 to 222 and 230 to 234) accumulate \<^verbatim>\<open>sum\<close> and
  \<^verbatim>\<open>weight\<close> over \<^verbatim>\<open>k = -kernel, ..., kernel\<close>.  The source's \<^verbatim>\<open>kernel\<close> is
  written \<open>kern\<close>, since HOL has a constant of that name.
\<close>

definition kernelOf :: "real \<Rightarrow> int" where
  "kernelOf tension = max 1 \<lceil>tension\<rceil>"

definition rowAcc :: "int \<Rightarrow> int \<Rightarrow> real list \<Rightarrow> int \<Rightarrow> int \<Rightarrow> real \<times> real" where
  "rowAcc width kern heightMap x y =
     fold (\<lambda>k (sum, weight).
             (let px = min (width - 1) (max 0 (x + k))
              in (sum + heightMap ! nat (y * width + px), weight + 1)))
       [- kern..kern] (0, 0)"

definition colAcc :: "int \<Rightarrow> int \<Rightarrow> int \<Rightarrow> real list \<Rightarrow> int \<Rightarrow> int \<Rightarrow> real \<times> real" where
  "colAcc width height kern tempMap x y =
     fold (\<lambda>k (sum, weight).
             (let py = min (height - 1) (max 0 (y + k))
              in (sum + tempMap ! nat (py * width + x), weight + 1)))
       [- kern..kern] (0, 0)"

definition horizontalPass :: "int \<Rightarrow> int \<Rightarrow> int \<Rightarrow> real list \<Rightarrow> real list" where
  "horizontalPass width height kern heightMap =
     fold (\<lambda>y. fold (\<lambda>x tempMap.
             (let (sum, weight) = rowAcc width kern heightMap x y
              in tempMap[nat (y * width + x) := sum / weight]))
           [0..width - 1])
       [0..height - 1]
       (replicate (nat (width * height)) 0)"

definition verticalPass :: "int \<Rightarrow> int \<Rightarrow> int \<Rightarrow> real list \<Rightarrow> real list \<Rightarrow> real list" where
  "verticalPass width height kern tempMap heightMap =
     fold (\<lambda>x. fold (\<lambda>y hm.
             (let (sum, weight) = colAcc width height kern tempMap x y
              in hm[nat (y * width + x) := sum / weight]))
           [0..height - 1])
       [0..width - 1]
       heightMap"

definition erosion :: "int \<Rightarrow> int \<Rightarrow> real \<Rightarrow> real list \<Rightarrow> real list" where
  "erosion width height tension heightMap =
     (if tension > 0 then
        (let kern = kernelOf tension;
             tempMap = horizontalPass width height kern heightMap
         in verticalPass width height kern tempMap heightMap)
      else heightMap)"

subsection \<open>Stages 4 and 5: normals and packing (lines 240 to 267)\<close>

text \<open>
  \<^verbatim>\<open>data\<close> is a \<^verbatim>\<open>Uint8ClampedArray\<close>: a store clamps to \<open>[0, 255]\<close> and rounds to the
  nearest integer, a tie to the even one.
\<close>

definition toUint8Clamp :: "real \<Rightarrow> nat" where
  "toUint8Clamp v =
     (if v \<le> 0 then 0
      else if v \<ge> 255 then 255
      else (let f = \<lfloor>v\<rfloor>
            in if of_int f + 1 / 2 < v then nat (f + 1)
               else if v < of_int f + 1 / 2 then nat f
               else if even f then nat f else nat (f + 1)))"

definition normalLen :: "int \<Rightarrow> int \<Rightarrow> real list \<Rightarrow> int \<Rightarrow> int \<Rightarrow> real" where
  "normalLen width height heightMap x y =
     (let steepness = 4.0;
          x0 = max 0 (x - 1);
          x1 = min (width - 1) (x + 1);
          y0 = max 0 (y - 1);
          y1 = min (height - 1) (y + 1);
          dx = (heightMap ! nat (y * width + x0) - heightMap ! nat (y * width + x1)) * steepness;
          dy = (heightMap ! nat (y0 * width + x) - heightMap ! nat (y1 * width + x)) * steepness
      in sqrt (dx * dx + dy * dy + 1.0))"

definition packPixel :: "int \<Rightarrow> int \<Rightarrow> real list \<Rightarrow> int \<Rightarrow> int \<Rightarrow> nat list \<Rightarrow> nat list" where
  "packPixel width height heightMap x y data =
     (let steepness = 4.0;
          i = (y * width + x) * 4;
          x0 = max 0 (x - 1);
          x1 = min (width - 1) (x + 1);
          y0 = max 0 (y - 1);
          y1 = min (height - 1) (y + 1);
          hVal = heightMap ! nat (y * width + x);
          dx = (heightMap ! nat (y * width + x0) - heightMap ! nat (y * width + x1)) * steepness;
          dy = (heightMap ! nat (y0 * width + x) - heightMap ! nat (y1 * width + x)) * steepness;
          len = normalLen width height heightMap x y;
          nx = dx / len;
          ny = dy / len
      in data[nat i := toUint8Clamp ((nx * 0.5 + 0.5) * 255),
              nat (i + 1) := toUint8Clamp ((ny * 0.5 + 0.5) * 255),
              nat (i + 2) := toUint8Clamp (hVal * 255),
              nat (i + 3) := toUint8Clamp (if hVal > 0.01 then 255 else 0)])"

definition packPixels :: "int \<Rightarrow> int \<Rightarrow> real list \<Rightarrow> nat list" where
  "packPixels width height heightMap =
     fold (\<lambda>y. fold (\<lambda>x. packPixel width height heightMap x y) [0..width - 1])
       [0..height - 1]
       (replicate (nat (width * height * 4)) 0)"

subsection \<open>The generator\<close>

text \<open>The height map after erosion, and the pixel buffer \<^verbatim>\<open>imgData.data\<close>.\<close>

definition finalHeightMap ::
  "int list \<Rightarrow> int \<Rightarrow> int \<Rightarrow> real \<Rightarrow> real \<Rightarrow> GlassShape \<Rightarrow> GlassShapeProfile \<Rightarrow> real \<Rightarrow> real
     \<Rightarrow> real list" where
  "finalHeightMap perm width height radius bezel shape profile tension warp =
     erosion width height tension
       (heightMap0 perm width height radius bezel shape profile warp)"

definition pixelData ::
  "int list \<Rightarrow> int \<Rightarrow> int \<Rightarrow> real \<Rightarrow> real \<Rightarrow> GlassShape \<Rightarrow> GlassShapeProfile \<Rightarrow> real \<Rightarrow> real
     \<Rightarrow> nat list" where
  "pixelData perm width height radius bezel shape profile tension warp =
     packPixels width height
       (finalHeightMap perm width height radius bezel shape profile tension warp)"

text \<open>
  What a call allocates, in the order of the source: the canvas element with its two
  dimensions (lines 106 to 108), the two \<^verbatim>\<open>Float32Array\<close>s of \<^verbatim>\<open>size\<close> entries (lines 115
  and 116), the \<^verbatim>\<open>Uint8Array\<close> of the permutation table (line 127) and the image data of
  line 241, whose \<^verbatim>\<open>data\<close> is the pixel buffer.
\<close>

datatype Allocation =
  Canvas int int
  | Float32Array int
  | Uint8Array int
  | ImageData int int

text \<open>A run of the generator: the value it returns and the allocations it has made.\<close>

record GlassRun =
  returned :: GlassMaps
  allocated :: "Allocation list"

text \<open>
  Lines 104 to 271.  The first guard returns before anything is allocated; the second
  returns when only the canvas element exists.
\<close>

definition generateGlassMapsRun ::
  "Host \<Rightarrow> int list \<Rightarrow> int \<Rightarrow> int \<Rightarrow> real \<Rightarrow> real \<Rightarrow> GlassShape \<Rightarrow> GlassShapeProfile
     \<Rightarrow> real \<Rightarrow> real \<Rightarrow> GlassRun" where
  "generateGlassMapsRun host perm width height radius bezel shape profile tension warp =
     (if width \<le> 0 \<or> height \<le> 0
      then \<lparr>returned = \<lparr>surfaceUrl = ''''\<rparr>, allocated = []\<rparr>
      else
        (let canvas = [Canvas width height]
         in if \<not> hasContext2d host
            then \<lparr>returned = \<lparr>surfaceUrl = ''''\<rparr>, allocated = canvas\<rparr>
            else
              (let size = width * height;
                   buffers = canvas @ [Float32Array size, Float32Array size, Uint8Array 512,
                                       ImageData width height];
                   data = pixelData perm width height radius bezel shape profile tension warp
               in \<lparr>returned = \<lparr>surfaceUrl = toDataURL host width height data\<rparr>,
                   allocated = buffers\<rparr>)))"

text \<open>The value that \<^verbatim>\<open>generateGlassMaps\<close> returns.\<close>

definition generateGlassMaps ::
  "Host \<Rightarrow> int list \<Rightarrow> int \<Rightarrow> int \<Rightarrow> real \<Rightarrow> real \<Rightarrow> GlassShape \<Rightarrow> GlassShapeProfile
     \<Rightarrow> real \<Rightarrow> real \<Rightarrow> GlassMaps" where
  "generateGlassMaps host perm width height radius bezel shape profile tension warp =
     returned
       (generateGlassMapsRun host perm width height radius bezel shape profile tension warp)"

subsection \<open>Concrete hosts and tables for the examples\<close>

text \<open>A browser that hands out a 2D context, and one that does not.\<close>

definition canvasHost :: Host where
  "canvasHost = \<lparr>hasContext2d = True, pngPayload = (\<lambda>width height data. [])\<rparr>"

definition noCanvasHost :: Host where
  "noCanvasHost = \<lparr>hasContext2d = False, pngPayload = (\<lambda>width height data. [])\<rparr>"

text \<open>A permutation table that \<^verbatim>\<open>Math.random\<close> can produce: the same entry 512 times.\<close>

definition constPerm :: "int \<Rightarrow> int list" where
  "constPerm v = replicate 512 v"

section \<open>Arrays and loops\<close>

subsection \<open>Reads of the permutation table\<close>

text \<open>
  With a table as line 128 fills it, every index that \<^verbatim>\<open>noise2d\<close> reads (\<^verbatim>\<open>X\<close>,
  \<^verbatim>\<open>X+1\<close>, \<^verbatim>\<open>A\<close>, \<^verbatim>\<open>A+1\<close>, \<^verbatim>\<open>B\<close>, \<^verbatim>\<open>B+1\<close>) lies inside the 512 entries.
\<close>

lemma permOk_nth:
  assumes "permOk perm" "0 \<le> i" "i < 512"
  shows "0 \<le> perm ! nat i \<and> perm ! nat i < 255"
proof -
  have "nat i < length perm" using assms by (simp add: permOk_def)
  then have "perm ! nat i \<in> set perm" by (rule nth_mem)
  then show ?thesis using assms(1) by (auto simp add: permOk_def list_all_iff)
qed

lemma byte_mask: "0 \<le> (a::int) AND 255 \<and> a AND 255 \<le> 255"
  by (simp add: AND_upper2')

lemma noise2d_reads_in_range:
  fixes x y :: real
  assumes "permOk perm" and "X = \<lfloor>x\<rfloor> AND 255" and "Y = \<lfloor>y\<rfloor> AND 255"
    and "A = perm ! nat X + Y" and "B = perm ! nat (X + 1) + Y"
  shows "0 \<le> X \<and> X + 1 < 512 \<and> 0 \<le> A \<and> A + 1 < 512 \<and> 0 \<le> B \<and> B + 1 < 512"
proof -
  have X: "0 \<le> X" "X \<le> 255" and Y: "0 \<le> Y" "Y \<le> 255"
    using byte_mask[of "\<lfloor>x\<rfloor>"] byte_mask[of "\<lfloor>y\<rfloor>"] assms(2,3) by simp_all
  have "0 \<le> perm ! nat X \<and> perm ! nat X < 255"
    using assms(1) X by (intro permOk_nth) simp_all
  moreover have "0 \<le> perm ! nat (X + 1) \<and> perm ! nat (X + 1) < 255"
    using assms(1) X by (intro permOk_nth) simp_all
  ultimately show ?thesis using X Y assms(4,5) by simp
qed

subsection \<open>Pixel indices\<close>

lemma idx_bound:
  fixes x y w h :: int
  assumes "0 \<le> x" "x < w" "0 \<le> y" "y < h"
  shows "0 \<le> y * w + x" and "y * w + x < w * h"
proof -
  show "0 \<le> y * w + x" using assms by simp
  have "y * w + x < y * w + w" using assms by simp
  also have "\<dots> = (y + 1) * w" by (simp add: algebra_simps)
  also have "\<dots> \<le> h * w" using assms by (intro mult_right_mono) auto
  finally show "y * w + x < w * h" by (simp add: mult.commute)
qed

lemma idx_inj:
  fixes x y x' y' w :: int
  assumes "0 \<le> x" "x < w" "0 \<le> x'" "x' < w" "y * w + x = y' * w + x'"
  shows "x = x' \<and> y = y'"
proof -
  have "(y * w + x) mod w = x mod w" "(y' * w + x') mod w = x' mod w" by simp_all
  moreover have "x mod w = x" "x' mod w = x'" using assms by simp_all
  ultimately have x: "x = x'" using assms(5) by metis
  then have "y * w = y' * w" using assms by simp
  then show ?thesis using x assms by auto
qed

subsection \<open>Loops that store into an array\<close>

lemma fold_invariant:
  assumes "\<And>q a. q \<in> set ps \<Longrightarrow> I a \<Longrightarrow> I (step q a)" and "I a"
  shows "I (fold step ps a)"
  using assms by (induction ps arbitrary: a) auto

lemma fold_sets_nth:
  assumes p: "p \<in> set ps"
    and len: "\<And>q a. length (step q a) = length a"
    and hit: "\<And>a. length a = n \<Longrightarrow> step p a ! j = v"
    and miss: "\<And>q a. q \<in> set ps \<Longrightarrow> q \<noteq> p \<Longrightarrow> length a = n \<Longrightarrow> step q a ! j = a ! j"
    and a: "length a = n"
  shows "fold step ps a ! j = v"
proof -
  from p obtain ps1 ps2 where ps: "ps = ps1 @ p # ps2" by (auto dest: split_list)
  have l1: "length (fold step ps1 a) = n"
    by (rule fold_invariant[where I = "\<lambda>b. length b = n"]) (simp_all add: len a)
  let ?b = "step p (fold step ps1 a)"
  have b: "length ?b = n \<and> ?b ! j = v" using l1 by (simp add: len hit)
  have "length (fold step ps2 ?b) = n \<and> fold step ps2 ?b ! j = v"
  proof (rule fold_invariant[where I = "\<lambda>b. length b = n \<and> b ! j = v"])
    fix q c assume q: "q \<in> set ps2" and c: "length c = n \<and> c ! j = v"
    show "length (step q c) = n \<and> step q c ! j = v"
    proof (cases "q = p")
      case True then show ?thesis using c by (simp add: len hit)
    next
      case False then show ?thesis using c q ps by (simp add: len miss)
    qed
  qed (rule b)
  then show ?thesis by (simp add: ps)
qed

lemma fold_keeps_nth:
  assumes len: "\<And>q a. length (step q a) = length a"
    and miss: "\<And>q a. q \<in> set ps \<Longrightarrow> length a = n \<Longrightarrow> step q a ! j = a ! j"
    and a: "length a = n"
  shows "fold step ps a ! j = a ! j"
proof -
  have "length (fold step ps a) = n \<and> fold step ps a ! j = a ! j"
    by (rule fold_invariant[where I = "\<lambda>b. length b = n \<and> b ! j = a ! j"])
       (simp_all add: len miss a)
  then show ?thesis by simp
qed

lemma fold_length:
  assumes "\<And>q a. length (step q a) = length a"
  shows "length (fold step ps a) = length a"
  by (rule fold_invariant[where I = "\<lambda>b. length b = length a"]) (simp_all add: assms)

lemma fold2_sets_nth:
  assumes q: "q \<in> set qs" and p: "p \<in> set ps"
    and len: "\<And>q p a. length (step q p a) = length a"
    and hit: "\<And>a. length a = n \<Longrightarrow> step q p a ! j = v"
    and miss: "\<And>q' p' a. q' \<in> set qs \<Longrightarrow> p' \<in> set ps \<Longrightarrow> q' \<noteq> q \<or> p' \<noteq> p
                 \<Longrightarrow> length a = n \<Longrightarrow> step q' p' a ! j = a ! j"
    and a: "length a = n"
  shows "fold (\<lambda>q. fold (step q) ps) qs a ! j = v"
proof (rule fold_sets_nth[where p = q and n = n])
  show "q \<in> set qs" by (rule q)
  show "length (fold (step q') ps b) = length b" for q' b
    by (rule fold_length) (rule len)
  show "fold (step q) ps b ! j = v" if "length b = n" for b
    by (rule fold_sets_nth[where p = p and n = n]) (simp_all add: p len hit miss q that)
  show "fold (step q') ps b ! j = b ! j" if "q' \<in> set qs" "q' \<noteq> q" "length b = n" for q' b
    by (rule fold_keeps_nth[where n = n]) (simp_all add: len miss that)
  show "length a = n" by (rule a)
qed

lemma fold2_length:
  assumes "\<And>q p a. length (step q p a) = length a"
  shows "length (fold (\<lambda>q. fold (step q) ps) qs a) = length a"
  by (rule fold_length) (rule fold_length, rule assms)

lemma nat_idx_neq:
  fixes x y x' y' w :: int
  assumes "0 \<le> x" "x < w" "0 \<le> x'" "x' < w" "0 \<le> y" "0 \<le> y'" "y \<noteq> y' \<or> x \<noteq> x'"
  shows "nat (y * w + x) \<noteq> nat (y' * w + x')"
proof
  assume "nat (y * w + x) = nat (y' * w + x')"
  moreover have "0 \<le> y * w + x" "0 \<le> y' * w + x'" using assms by simp_all
  ultimately have "y * w + x = y' * w + x'" by linarith
  then show False using idx_inj[of x w x' y y'] assms by auto
qed

lemma nat_idx_less:
  fixes x y w h :: int
  assumes "0 \<le> x" "x < w" "0 \<le> y" "y < h"
  shows "nat (y * w + x) < nat (w * h)"
  using idx_bound[OF assms] by linarith

lemma fill_rows_nth:
  fixes f :: "int \<Rightarrow> int \<Rightarrow> 'a"
  assumes "0 \<le> x" "x < w" "0 \<le> y" "y < h" and "length init = nat (w * h)"
  shows "fold (\<lambda>y. fold (\<lambda>x a. a[nat (y * w + x) := f x y]) [0..w - 1]) [0..h - 1] init
           ! nat (y * w + x) = f x y"
proof (rule fold2_sets_nth[where q = y and p = x and n = "nat (w * h)"])
  show "y \<in> set [0..h - 1]" "x \<in> set [0..w - 1]" using assms by simp_all
  show "length init = nat (w * h)" by fact
  show "\<And>a. length a = nat (w * h) \<Longrightarrow> a[nat (y * w + x) := f x y] ! nat (y * w + x) = f x y"
    using nat_idx_less[of x w y h] assms by simp
  show "\<And>q' p' a. q' \<in> set [0..h - 1] \<Longrightarrow> p' \<in> set [0..w - 1] \<Longrightarrow> q' \<noteq> y \<or> p' \<noteq> x \<Longrightarrow>
         length a = nat (w * h) \<Longrightarrow>
         a[nat (q' * w + p') := f p' q'] ! nat (y * w + x) = a ! nat (y * w + x)"
    using assms by (simp add: nat_idx_neq)
qed simp

lemma fill_cols_nth:
  fixes f :: "int \<Rightarrow> int \<Rightarrow> 'a"
  assumes "0 \<le> x" "x < w" "0 \<le> y" "y < h" and "length init = nat (w * h)"
  shows "fold (\<lambda>x. fold (\<lambda>y a. a[nat (y * w + x) := f x y]) [0..h - 1]) [0..w - 1] init
           ! nat (y * w + x) = f x y"
proof (rule fold2_sets_nth[where q = x and p = y and n = "nat (w * h)"])
  show "x \<in> set [0..w - 1]" "y \<in> set [0..h - 1]" using assms by simp_all
  show "length init = nat (w * h)" by fact
  show "\<And>a. length a = nat (w * h) \<Longrightarrow> a[nat (y * w + x) := f x y] ! nat (y * w + x) = f x y"
    using nat_idx_less[of x w y h] assms by simp
  show "\<And>q' p' a. q' \<in> set [0..w - 1] \<Longrightarrow> p' \<in> set [0..h - 1] \<Longrightarrow> q' \<noteq> x \<or> p' \<noteq> y \<Longrightarrow>
         length a = nat (w * h) \<Longrightarrow>
         a[nat (p' * w + q') := f q' p'] ! nat (y * w + x) = a ! nat (y * w + x)"
  proof -
    fix q' p' :: int and a :: "'a list"
    assume "q' \<in> set [0..w - 1]" "p' \<in> set [0..h - 1]" "q' \<noteq> x \<or> p' \<noteq> y"
    then have "nat (p' * w + q') \<noteq> nat (y * w + x)"
      using assms by (intro nat_idx_neq) auto
    then show "a[nat (p' * w + q') := f q' p'] ! nat (y * w + x) = a ! nat (y * w + x)"
      by simp
  qed
qed simp

subsection \<open>The height map of stages 1 and 2\<close>

lemma heightMap0_length:
  "length (heightMap0 perm width height radius bezel shape profile warp) = nat (width * height)"
  unfolding heightMap0_def by (subst fold2_length) simp_all

lemma heightMap0_nth:
  assumes "0 \<le> x" "x < width" "0 \<le> y" "y < height"
  shows "heightMap0 perm width height radius bezel shape profile warp ! nat (y * width + x)
           = pixelHeight perm width height radius bezel shape profile warp x y"
  unfolding heightMap0_def using assms by (intro fill_rows_nth) simp_all

subsection \<open>The erosion passes\<close>

lemma acc_fold:
  "fold (\<lambda>k (sum, weight). (sum + g k, weight + 1)) ks (s, wt)
     = (s + sum_list (map g ks), wt + real (length ks))"
  by (induction ks arbitrary: s wt) (simp_all add: algebra_simps)

lemma rowAcc_eq:
  "rowAcc width kern heightMap x y =
     (sum_list (map (\<lambda>k. heightMap ! nat (y * width + min (width - 1) (max 0 (x + k))))
        [- kern..kern]), real (length [- kern..kern]))"
  unfolding rowAcc_def Let_def by (simp add: acc_fold)

lemma colAcc_eq:
  "colAcc width height kern tempMap x y =
     (sum_list (map (\<lambda>k. tempMap ! nat (min (height - 1) (max 0 (y + k)) * width + x))
        [- kern..kern]), real (length [- kern..kern]))"
  unfolding colAcc_def Let_def by (simp add: acc_fold)

lemma horizontalPass_length:
  "length (horizontalPass width height kern heightMap) = nat (width * height)"
  unfolding horizontalPass_def by (subst fold2_length) (simp_all add: case_prod_beta)

lemma horizontalPass_nth:
  assumes "0 \<le> x" "x < width" "0 \<le> y" "y < height"
  shows "horizontalPass width height kern heightMap ! nat (y * width + x)
           = fst (rowAcc width kern heightMap x y) / snd (rowAcc width kern heightMap x y)"
  unfolding horizontalPass_def case_prod_beta Let_def using assms
  by (intro fill_rows_nth) simp_all

lemma verticalPass_length:
  "length (verticalPass width height kern tempMap heightMap) = length heightMap"
  unfolding verticalPass_def by (subst fold2_length) (simp_all add: case_prod_beta)

lemma verticalPass_nth:
  assumes "0 \<le> x" "x < width" "0 \<le> y" "y < height" "length heightMap = nat (width * height)"
  shows "verticalPass width height kern tempMap heightMap ! nat (y * width + x)
           = fst (colAcc width height kern tempMap x y) / snd (colAcc width height kern tempMap x y)"
  unfolding verticalPass_def case_prod_beta Let_def using assms
  by (intro fill_cols_nth) simp_all

subsection \<open>The pixel buffer\<close>

lemma packPixel_length: "length (packPixel width height heightMap x y data) = length data"
  by (simp add: packPixel_def Let_def)

lemma packPixels_length:
  "length (packPixels width height heightMap) = nat (width * height * 4)"
  unfolding packPixels_def by (subst fold2_length) (simp_all add: packPixel_length)

lemma nat4_eq:
  fixes i j c d :: int
  assumes "0 \<le> i" "0 \<le> j" "0 \<le> c" "c < 4" "0 \<le> d" "d < 4"
    and "nat (i * 4 + c) = nat (j * 4 + d)"
  shows "i = j \<and> c = d"
proof -
  have "i * 4 + c = j * 4 + d" using assms by linarith
  then show ?thesis using assms(3-6) by presburger
qed

lemma nat4_less:
  fixes i n c :: int
  assumes "0 \<le> i" "i < n" "0 \<le> c" "c < 4"
  shows "nat (i * 4 + c) < nat (n * 4)"
  using assms by linarith

lemma chan_idx_neq:
  fixes x y x' y' w c c' :: int
  assumes "0 \<le> x" "x < w" "0 \<le> x'" "x' < w" "0 \<le> y" "0 \<le> y'" "y \<noteq> y' \<or> x \<noteq> x'"
    and "0 \<le> c" "c < 4" "0 \<le> c'" "c' < 4"
  shows "nat ((y * w + x) * 4 + c) \<noteq> nat ((y' * w + x') * 4 + c')"
proof
  assume e: "nat ((y * w + x) * 4 + c) = nat ((y' * w + x') * 4 + c')"
  have "0 \<le> y * w + x" "0 \<le> y' * w + x'" using assms by simp_all
  then have "y * w + x = y' * w + x'"
    using nat4_eq[OF _ _ _ _ _ _ e] assms by simp
  then show False using idx_inj[of x w x' y y'] assms by auto
qed

lemma chan_idx_less:
  fixes x y w h c :: int
  assumes "0 \<le> x" "x < w" "0 \<le> y" "y < h" "0 \<le> c" "c < 4"
  shows "nat ((y * w + x) * 4 + c) < nat (w * h * 4)"
  using idx_bound[OF assms(1-4)] assms(5,6) by (intro nat4_less) simp_all

lemma packPixel_other:
  assumes "0 \<le> x" "x < width" "0 \<le> x'" "x' < width" "0 \<le> y" "0 \<le> y'" "y \<noteq> y' \<or> x \<noteq> x'"
    and "0 \<le> c" "c < 4"
  shows "packPixel width height heightMap x' y' data ! nat ((y * width + x) * 4 + c)
           = data ! nat ((y * width + x) * 4 + c)"
proof -
  have "nat ((y' * width + x') * 4 + d) \<noteq> nat ((y * width + x) * 4 + c)"
    if "0 \<le> d" "d < 4" for d
    using chan_idx_neq[of x' width x y' y d c] assms that by auto
  from this[of 0] this[of 1] this[of 2] this[of 3] show ?thesis
    by (simp add: packPixel_def Let_def)
qed

lemma packPixel_alpha:
  assumes "0 \<le> x" "x < width" "0 \<le> y" "y < height" "length data = nat (width * height * 4)"
  shows "packPixel width height heightMap x y data ! nat ((y * width + x) * 4 + 3)
           = toUint8Clamp (if heightMap ! nat (y * width + x) > 0.01 then 255 else 0)"
  using chan_idx_less[of x width y height 3] assms
  by (simp add: packPixel_def Let_def)

lemma packPixel_blue:
  assumes "0 \<le> x" "x < width" "0 \<le> y" "y < height" "length data = nat (width * height * 4)"
  shows "packPixel width height heightMap x y data ! nat ((y * width + x) * 4 + 2)
           = toUint8Clamp (heightMap ! nat (y * width + x) * 255)"
proof -
  have "0 \<le> y * width + x" using assms by simp
  then have "nat ((y * width + x) * 4 + 3) \<noteq> nat ((y * width + x) * 4 + 2)"
    using nat4_eq[of "y * width + x" "y * width + x" 3 2] by auto
  then show ?thesis
    using chan_idx_less[of x width y height 2] assms
    by (simp add: packPixel_def Let_def)
qed

lemma packPixels_chan:
  assumes "0 \<le> x" "x < width" "0 \<le> y" "y < height" "0 \<le> c" "c < 4"
    and hit: "\<And>data. length data = nat (width * height * 4) \<Longrightarrow>
               packPixel width height heightMap x y data ! nat ((y * width + x) * 4 + c) = v"
  shows "packPixels width height heightMap ! nat ((y * width + x) * 4 + c) = v"
  unfolding packPixels_def
proof (rule fold2_sets_nth[where q = y and p = x and n = "nat (width * height * 4)"])
  show "y \<in> set [0..height - 1]" "x \<in> set [0..width - 1]" using assms by simp_all
  show "length (replicate (nat (width * height * 4)) (0::nat)) = nat (width * height * 4)" by simp
  show "\<And>a. length a = nat (width * height * 4) \<Longrightarrow>
          packPixel width height heightMap x y a ! nat ((y * width + x) * 4 + c) = v"
    by (rule hit)
  show "\<And>q' p' a. q' \<in> set [0..height - 1] \<Longrightarrow> p' \<in> set [0..width - 1] \<Longrightarrow> q' \<noteq> y \<or> p' \<noteq> x \<Longrightarrow>
          length a = nat (width * height * 4) \<Longrightarrow>
          packPixel width height heightMap p' q' a ! nat ((y * width + x) * 4 + c)
            = a ! nat ((y * width + x) * 4 + c)"
    using assms by (intro packPixel_other) auto
qed (simp add: packPixel_length)

lemma packPixels_alpha:
  assumes "0 \<le> x" "x < width" "0 \<le> y" "y < height"
  shows "packPixels width height heightMap ! nat ((y * width + x) * 4 + 3)
           = toUint8Clamp (if heightMap ! nat (y * width + x) > 0.01 then 255 else 0)"
  using assms by (intro packPixels_chan packPixel_alpha) simp_all

lemma packPixels_blue:
  assumes "0 \<le> x" "x < width" "0 \<le> y" "y < height"
  shows "packPixels width height heightMap ! nat ((y * width + x) * 4 + 2)
           = toUint8Clamp (heightMap ! nat (y * width + x) * 255)"
  using assms by (intro packPixels_chan packPixel_blue) simp_all

section \<open>The claims\<close>

subsection \<open>The result and the size of the pixel buffer\<close>

lemma pixelData_length:
  "length (pixelData perm width height radius bezel shape profile tension warp)
     = nat (width * height * 4)"
  by (simp add: pixelData_def packPixels_length)

lemma toDataURL_nonempty: "toDataURL host width height data \<noteq> ''''"
  by (simp add: toDataURL_def)

lemma generateGlassMaps_eq:
  "generateGlassMaps host perm width height radius bezel shape profile tension warp =
     (if width \<le> 0 \<or> height \<le> 0 then \<lparr>surfaceUrl = ''''\<rparr>
      else if \<not> hasContext2d host then \<lparr>surfaceUrl = ''''\<rparr>
      else \<lparr>surfaceUrl = toDataURL host width height
              (pixelData perm width height radius bezel shape profile tension warp)\<rparr>)"
  by (simp add: generateGlassMaps_def generateGlassMapsRun_def Let_def)

text \<open>
  Claim C1, as stated, fails: the result is empty if and only if a dimension is not
  positive.  With positive dimensions the generator still answers the empty result when
  the browser hands out no 2D context (line 111).  Here a 1 by 1 map is asked of such a
  browser.
\<close>

theorem C1_counterexample:
  "(0::int) < 1 \<and>
   surfaceUrl (generateGlassMaps noCanvasHost (constPerm 1) 1 1 0 1 Rect Convex 2 0) = ''''"
  by (simp add: generateGlassMaps_eq noCanvasHost_def)

text \<open>
  Claim C1, amended: the result is empty if and only if a dimension is not positive or the
  browser hands out no 2D context.
  \<^item> With \<open>width \<le> 0\<close> or \<open>height \<le> 0\<close> the call returns the empty result and has
    allocated nothing: no buffer, and not even the canvas element.
  \<^item> With positive dimensions and no 2D context the call returns the empty result and has
    allocated the canvas element only: no height map and no pixel buffer.
  \<^item> With positive dimensions and a 2D context the result is not empty: it is the data URL
    of the pixel buffer, which has exactly \<open>width * height * 4\<close> bytes.
\<close>

theorem C1_result_empty_iff:
  "(surfaceUrl (generateGlassMaps host perm width height radius bezel shape profile tension warp)
      = ''''
      \<longleftrightarrow> width \<le> 0 \<or> height \<le> 0 \<or> \<not> hasContext2d host)
   \<and> (width \<le> 0 \<or> height \<le> 0 \<longrightarrow>
        generateGlassMapsRun host perm width height radius bezel shape profile tension warp
          = \<lparr>returned = \<lparr>surfaceUrl = ''''\<rparr>, allocated = []\<rparr>)
   \<and> (0 < width \<and> 0 < height \<and> \<not> hasContext2d host \<longrightarrow>
        generateGlassMapsRun host perm width height radius bezel shape profile tension warp
          = \<lparr>returned = \<lparr>surfaceUrl = ''''\<rparr>, allocated = [Canvas width height]\<rparr>)
   \<and> (0 < width \<and> 0 < height \<and> hasContext2d host \<longrightarrow>
        surfaceUrl (generateGlassMaps host perm width height radius bezel shape profile tension warp)
          = toDataURL host width height
              (pixelData perm width height radius bezel shape profile tension warp)
        \<and> int (length (pixelData perm width height radius bezel shape profile tension warp))
          = width * height * 4
        \<and> allocated
            (generateGlassMapsRun host perm width height radius bezel shape profile tension warp)
          = [Canvas width height, Float32Array (width * height), Float32Array (width * height),
             Uint8Array 512, ImageData width height])"
  by (simp add: generateGlassMaps_def generateGlassMapsRun_def Let_def toDataURL_nonempty
      pixelData_length)

theorem C1_result_empty_iff_witness:
  "surfaceUrl (generateGlassMaps canvasHost (constPerm 1) 3 2 0 1 Rect Convex 2 0) \<noteq> ''''
   \<and> int (length (pixelData (constPerm 1) 3 2 0 1 Rect Convex 2 0)) = 3 * 2 * 4
   \<and> allocated (generateGlassMapsRun canvasHost (constPerm 1) 3 2 0 1 Rect Convex 2 0)
       = [Canvas 3 2, Float32Array 6, Float32Array 6, Uint8Array 512, ImageData 3 2]
   \<and> generateGlassMapsRun canvasHost (constPerm 1) 0 2 0 1 Rect Convex 2 0
       = \<lparr>returned = \<lparr>surfaceUrl = ''''\<rparr>, allocated = []\<rparr>
   \<and> generateGlassMapsRun canvasHost (constPerm 1) 3 (- 1) 0 1 Rect Convex 2 0
       = \<lparr>returned = \<lparr>surfaceUrl = ''''\<rparr>, allocated = []\<rparr>
   \<and> generateGlassMapsRun noCanvasHost (constPerm 1) 3 2 0 1 Rect Convex 2 0
       = \<lparr>returned = \<lparr>surfaceUrl = ''''\<rparr>, allocated = [Canvas 3 2]\<rparr>"
  using C1_result_empty_iff [of canvasHost "constPerm 1" 3 2 0 1 Rect Convex 2 0]
    C1_result_empty_iff [of canvasHost "constPerm 1" 0 2 0 1 Rect Convex 2 0]
    C1_result_empty_iff [of canvasHost "constPerm 1" 3 "- 1" 0 1 Rect Convex 2 0]
    C1_result_empty_iff [of noCanvasHost "constPerm 1" 3 2 0 1 Rect Convex 2 0]
  by (simp add: canvasHost_def noCanvasHost_def toDataURL_nonempty)

subsection \<open>Erosion with no tension\<close>

text \<open>
  Claim C6: when \<open>tension \<le> 0\<close> the erosion stage is skipped, so it returns the height
  map it was given, and the height map that the packing stage reads is the one that the
  height profiler produced.
\<close>

theorem C6_erosion_skipped:
  "tension \<le> 0 \<Longrightarrow>
     erosion width height tension heightMap = heightMap
     \<and> finalHeightMap perm width height radius bezel shape profile tension warp
         = heightMap0 perm width height radius bezel shape profile warp"
  by (simp add: erosion_def finalHeightMap_def)

theorem C6_erosion_skipped_witness:
  "(0::real) \<le> 0
   \<and> erosion 2 1 0 [1 / 2, 1] = [1 / 2, 1]
   \<and> finalHeightMap (constPerm 1) 2 1 0 1 Rect Convex 0 0
        = heightMap0 (constPerm 1) 2 1 0 1 Rect Convex 0"
  using C6_erosion_skipped [of 0 2 1 "[1 / 2, 1]" "constPerm 1" 0 1 Rect Convex 0]
  by simp

subsection \<open>The plateau\<close>









subsection \<open>The outside cutoff\<close>

lemma profileHeight_outside:
  assumes "0 < bezel" "1 < sdist"
  shows "profileHeight bezel profile sdist = 0"
  using assms by (simp add: profileHeight_def)

lemma profileHeight_rim:
  assumes "0 < bezel" "0 < sdist" "sdist \<le> 1"
  shows "profileHeight bezel profile sdist = (if profile = Concave then 1 else 0)"
proof -
  have "- sdist / bezel < 0" using assms by (simp add: divide_neg_pos)
  then have "max 0 (min 1 (- sdist / bezel)) = 0" by simp
  then show ?thesis using assms by (simp add: profileHeight_def Let_def)
qed

lemma pixelHeight_low:
  assumes "profileHeight bezel profile
             (pixelDist perm width height radius shape profile warp x y) = 0"
  shows "pixelHeight perm width height radius bezel shape profile warp x y = 0"
  using assms by (simp add: pixelHeight_def Let_def)

lemma pixelHeight_nonliquid:
  assumes "profile \<noteq> Liquid"
  shows "pixelHeight perm width height radius bezel shape profile warp x y =
           max 0 (min 1 (profileHeight bezel profile
             (pixelDist perm width height radius shape profile warp x y)))"
  using assms by (simp add: pixelHeight_def Let_def)

text \<open>
  Claim C3, amended: with \<open>bezel > 0\<close> the outside cutoff is the distance 1: a pixel
  with a distance above 1 stores the height 0 for every profile.  A pixel with a distance
  in \<open>(0, 1]\<close> stores the height 1 for the concave profile and the height 0 for the flat,
  convex and liquid profiles.
\<close>

theorem C3_outside_cutoff:
  assumes "0 < bezel" "0 \<le> x" "x < width" "0 \<le> y" "y < height"
  shows "(1 < pixelDist perm width height radius shape profile warp x y \<longrightarrow>
            heightMap0 perm width height radius bezel shape profile warp ! nat (y * width + x) = 0)
       \<and> (0 < pixelDist perm width height radius shape profile warp x y
            \<and> pixelDist perm width height radius shape profile warp x y \<le> 1 \<longrightarrow>
            heightMap0 perm width height radius bezel shape profile warp ! nat (y * width + x)
              = (if profile = Concave then 1 else 0))"
proof (intro conjI impI)
  assume "1 < pixelDist perm width height radius shape profile warp x y"
  then show "heightMap0 perm width height radius bezel shape profile warp ! nat (y * width + x) = 0"
    using assms by (simp add: heightMap0_nth pixelHeight_low profileHeight_outside)
next
  assume d: "0 < pixelDist perm width height radius shape profile warp x y
    \<and> pixelDist perm width height radius shape profile warp x y \<le> 1"
  then have ph: "profileHeight bezel profile
      (pixelDist perm width height radius shape profile warp x y)
        = (if profile = Concave then 1 else 0)"
    using assms(1) by (simp add: profileHeight_rim)
  show "heightMap0 perm width height radius bezel shape profile warp ! nat (y * width + x)
          = (if profile = Concave then 1 else 0)"
  proof (cases "profile = Concave")
    case True
    with ph show ?thesis using assms by (simp add: heightMap0_nth pixelHeight_nonliquid)
  next
    case False
    with ph show ?thesis using assms by (simp add: heightMap0_nth pixelHeight_low)
  qed
qed

lemma ex_rim_dist: "pixelDist perm 10 10 4 Rect profile 0 1 0 = 1"
  by (simp add: pixelDist_def warpPoint_def sdf_def Let_def)

lemma ex_out_dist: "pixelDist perm 20 20 8 Rect profile 0 2 0 = 2"
  by (simp add: pixelDist_def warpPoint_def sdf_def Let_def)

text \<open>
  Claim C3, as stated, fails: a pixel with a distance in \<open>(0, 1]\<close> need not store a
  positive height.  In a 10 by 10 rectangle with corner radius 4 the pixel \<open>(1, 0)\<close> has
  distance \<open>sqrt (3\<^sup>2 + 4\<^sup>2) - 4 = 1\<close>, and with the convex profile its height is 0.
\<close>

theorem C3_counterexample:
  "0 < pixelDist (constPerm 1) 10 10 4 Rect Convex 0 1 0
   \<and> pixelDist (constPerm 1) 10 10 4 Rect Convex 0 1 0 \<le> 1
   \<and> heightMap0 (constPerm 1) 10 10 4 2 Rect Convex 0 ! nat (0 * 10 + 1) = 0"
proof -
  have "heightMap0 (constPerm 1) 10 10 4 2 Rect Convex 0 ! nat (0 * 10 + 1)
          = pixelHeight (constPerm 1) 10 10 4 2 Rect Convex 0 1 0"
    by (rule heightMap0_nth) simp_all
  also have "\<dots> = 0"
    by (simp add: pixelHeight_def Let_def ex_rim_dist profileHeight_def)
  finally show ?thesis by (simp add: ex_rim_dist)
qed

theorem C3_outside_cutoff_witness:
  "pixelDist (constPerm 1) 20 20 8 Rect Flat 0 2 0 = 2
   \<and> heightMap0 (constPerm 1) 20 20 8 2 Rect Flat 0 ! nat (0 * 20 + 2) = 0
   \<and> pixelDist (constPerm 1) 10 10 4 Rect Concave 0 1 0 = 1
   \<and> heightMap0 (constPerm 1) 10 10 4 2 Rect Concave 0 ! nat (0 * 10 + 1) = 1
   \<and> heightMap0 (constPerm 1) 10 10 4 2 Rect Flat 0 ! nat (0 * 10 + 1) = 0"
  using C3_outside_cutoff [of 2 2 20 0 20 "constPerm 1" 8 Rect Flat 0]
    C3_outside_cutoff [of 2 1 10 0 10 "constPerm 1" 4 Rect Concave 0]
    C3_outside_cutoff [of 2 1 10 0 10 "constPerm 1" 4 Rect Flat 0]
  by (simp add: ex_rim_dist ex_out_dist)

subsection \<open>The alpha channel\<close>

lemma toUint8Clamp_0: "toUint8Clamp 0 = 0"
  by (simp add: toUint8Clamp_def)

lemma toUint8Clamp_255: "toUint8Clamp 255 = 255"
  by (simp add: toUint8Clamp_def)

lemma finalHeightMap_length:
  "length (finalHeightMap perm width height radius bezel shape profile tension warp)
     = nat (width * height)"
  by (simp add: finalHeightMap_def erosion_def Let_def verticalPass_length heightMap0_length)

text \<open>
  Claim C4: in the pixel buffer the alpha byte of every pixel \<open>(x, y)\<close>, stored at index
  \<open>(y * width + x) * 4 + 3\<close>, is 0 or 255, and it is 255 exactly when the height of that
  pixel after erosion exceeds 0.01.
\<close>

theorem C4_alpha_binary:
  assumes "0 \<le> x" "x < width" "0 \<le> y" "y < height"
  shows "(pixelData perm width height radius bezel shape profile tension warp
            ! nat ((y * width + x) * 4 + 3) = 0
          \<or> pixelData perm width height radius bezel shape profile tension warp
            ! nat ((y * width + x) * 4 + 3) = 255)
       \<and> (pixelData perm width height radius bezel shape profile tension warp
            ! nat ((y * width + x) * 4 + 3) = 255
          \<longleftrightarrow> finalHeightMap perm width height radius bezel shape profile tension warp
            ! nat (y * width + x) > 0.01)"
proof -
  have "pixelData perm width height radius bezel shape profile tension warp
          ! nat ((y * width + x) * 4 + 3)
        = toUint8Clamp
            (if finalHeightMap perm width height radius bezel shape profile tension warp
                  ! nat (y * width + x) > 0.01
             then 255 else 0)"
    unfolding pixelData_def using assms by (rule packPixels_alpha)
  then show ?thesis
    by (cases "finalHeightMap perm width height radius bezel shape profile tension warp
                  ! nat (y * width + x) > 0.01")
       (simp_all only: if_True if_False toUint8Clamp_0 toUint8Clamp_255, simp_all)
qed

theorem C4_alpha_binary_witness:
  "(pixelData (constPerm 1) 3 2 0 1 Rect Convex 2 0 ! nat ((1 * 3 + 2) * 4 + 3) = 0
    \<or> pixelData (constPerm 1) 3 2 0 1 Rect Convex 2 0 ! nat ((1 * 3 + 2) * 4 + 3) = 255)
   \<and> (pixelData (constPerm 1) 3 2 0 1 Rect Convex 2 0 ! nat ((1 * 3 + 2) * 4 + 3) = 255)
      = (finalHeightMap (constPerm 1) 3 2 0 1 Rect Convex 2 0 ! nat (1 * 3 + 2) > 0.01)"
  using C4_alpha_binary [of 2 3 1 2 "constPerm 1" 0 1 Rect Convex 2 0]
  by fastforce

subsection \<open>Heights and the unit interval\<close>

lemma idx_decomp:
  fixes w h :: int
  assumes "0 < w" "i < nat (w * h)"
  obtains x y where "0 \<le> x" "x < w" "0 \<le> y" "y < h" "i = nat (y * w + x)"
proof
  let ?x = "int i mod w" and ?y = "int i div w"
  show "0 \<le> ?x" "?x < w" using assms by simp_all
  show "0 \<le> ?y" using assms by (simp add: pos_imp_zdiv_nonneg_iff)
  have "int i < w * h" using assms by linarith
  then have lt: "int i < h * w" by (simp add: mult.commute)
  show "?y < h"
  proof (rule ccontr)
    assume "\<not> ?y < h"
    then have "h * w \<le> ?y * w" using assms(1) by (intro mult_right_mono) simp_all
    moreover have "0 \<le> ?x" using assms(1) by simp
    moreover have "?y * w + ?x = int i" by simp
    ultimately show False using lt by linarith
  qed
  show "i = nat (?y * w + ?x)" by simp
qed

lemma in01_pixels:
  fixes a :: "real list"
  assumes w: "0 < w" and len: "length a = nat (w * h)"
    and px: "\<And>x y. 0 \<le> x \<Longrightarrow> x < w \<Longrightarrow> 0 \<le> y \<Longrightarrow> y < h \<Longrightarrow>
               0 \<le> a ! nat (y * w + x) \<and> a ! nat (y * w + x) \<le> 1"
  shows "\<forall>v\<in>set a. 0 \<le> v \<and> v \<le> 1"
proof
  fix v assume "v \<in> set a"
  then obtain i where i: "i < length a" "v = a ! i" by (auto simp: in_set_conv_nth)
  from i(1) len obtain x y where "0 \<le> x" "x < w" "0 \<le> y" "y < h" "i = nat (y * w + x)"
    using idx_decomp[OF w, of i h] by auto
  then show "0 \<le> v \<and> v \<le> 1" using px i(2) by simp
qed

lemma pixelHeight_01:
  "0 \<le> pixelHeight perm width height radius bezel shape profile warp x y
   \<and> pixelHeight perm width height radius bezel shape profile warp x y \<le> 1"
  by (simp add: pixelHeight_def Let_def)

lemma heightMap0_01:
  assumes "0 < width"
  shows "\<forall>v\<in>set (heightMap0 perm width height radius bezel shape profile warp). 0 \<le> v \<and> v \<le> 1"
  using assms
  by (intro in01_pixels[where w = width and h = height])
     (simp_all add: heightMap0_length heightMap0_nth pixelHeight_01)

lemma avg_01:
  fixes g :: "int \<Rightarrow> real"
  assumes "ks \<noteq> []" and "\<And>k. k \<in> set ks \<Longrightarrow> 0 \<le> g k \<and> g k \<le> 1"
  shows "0 \<le> sum_list (map g ks) / real (length ks)
       \<and> sum_list (map g ks) / real (length ks) \<le> 1"
proof -
  have pos: "0 < real (length ks)" using assms(1) by simp
  have lo: "0 \<le> sum_list (map g ks)" using assms(2) by (intro sum_list_nonneg) auto
  have "sum_list (map g ks) \<le> sum_list (map (\<lambda>k. 1) ks)"
    using assms(2) by (intro sum_list_mono) auto
  then have hi: "sum_list (map g ks) \<le> real (length ks)" by (simp add: sum_list_triv)
  show ?thesis using pos lo hi by simp
qed

lemma kernelOf_pos: "1 \<le> kernelOf tension"
  by (simp add: kernelOf_def)

lemma kernel_range_nonempty: "0 \<le> kern \<Longrightarrow> [- kern..kern] \<noteq> []"
  by (simp add: upto.simps)

lemma clamp_col: "0 < w \<Longrightarrow> 0 \<le> min (w - 1) (max 0 (x + k)) \<and> min (w - 1) (max 0 (x + k)) < (w::int)"
  by auto

lemma rowAvg_01:
  assumes "0 < width" "0 \<le> y" "y < height" "0 \<le> kern"
    and "length heightMap = nat (width * height)"
    and "\<forall>v\<in>set heightMap. 0 \<le> v \<and> v \<le> 1"
  shows "0 \<le> fst (rowAcc width kern heightMap x y) / snd (rowAcc width kern heightMap x y)
       \<and> fst (rowAcc width kern heightMap x y) / snd (rowAcc width kern heightMap x y) \<le> 1"
  unfolding rowAcc_eq fst_conv snd_conv
proof (rule avg_01)
  show "[- kern..kern] \<noteq> []" using assms(4) by (rule kernel_range_nonempty)
  fix k
  let ?px = "min (width - 1) (max 0 (x + k))"
  have "nat (y * width + ?px) < length heightMap"
    using nat_idx_less[of ?px width y height] clamp_col[OF assms(1), of x k] assms by simp
  then have "heightMap ! nat (y * width + ?px) \<in> set heightMap" by (rule nth_mem)
  then show "0 \<le> heightMap ! nat (y * width + ?px) \<and> heightMap ! nat (y * width + ?px) \<le> 1"
    using assms(6) by blast
qed

lemma colAvg_01:
  assumes "0 < height" "0 \<le> x" "x < width" "0 \<le> kern"
    and "length tempMap = nat (width * height)"
    and "\<forall>v\<in>set tempMap. 0 \<le> v \<and> v \<le> 1"
  shows "0 \<le> fst (colAcc width height kern tempMap x y) / snd (colAcc width height kern tempMap x y)
       \<and> fst (colAcc width height kern tempMap x y) / snd (colAcc width height kern tempMap x y) \<le> 1"
  unfolding colAcc_eq fst_conv snd_conv
proof (rule avg_01)
  show "[- kern..kern] \<noteq> []" using assms(4) by (rule kernel_range_nonempty)
  fix k
  let ?py = "min (height - 1) (max 0 (y + k))"
  have "nat (?py * width + x) < length tempMap"
    using nat_idx_less[of x width ?py height] clamp_col[OF assms(1), of y k] assms by simp
  then have "tempMap ! nat (?py * width + x) \<in> set tempMap" by (rule nth_mem)
  then show "0 \<le> tempMap ! nat (?py * width + x) \<and> tempMap ! nat (?py * width + x) \<le> 1"
    using assms(6) by blast
qed

lemma horizontalPass_01:
  assumes "0 < width" "0 \<le> kern" "length heightMap = nat (width * height)"
    and "\<forall>v\<in>set heightMap. 0 \<le> v \<and> v \<le> 1"
  shows "\<forall>v\<in>set (horizontalPass width height kern heightMap). 0 \<le> v \<and> v \<le> 1"
proof (rule in01_pixels[where w = width and h = height])
  show "0 < width" by fact
  show "length (horizontalPass width height kern heightMap) = nat (width * height)"
    by (rule horizontalPass_length)
  fix x y assume "0 \<le> x" "x < width" "0 \<le> y" "y < height"
  then show "0 \<le> horizontalPass width height kern heightMap ! nat (y * width + x)
           \<and> horizontalPass width height kern heightMap ! nat (y * width + x) \<le> 1"
    using rowAvg_01[OF assms(1) _ _ assms(2,3,4), of y x] by (simp add: horizontalPass_nth)
qed

lemma verticalPass_01:
  assumes "0 < width" "0 < height" "0 \<le> kern" "length tempMap = nat (width * height)"
    and "\<forall>v\<in>set tempMap. 0 \<le> v \<and> v \<le> 1"
    and "length heightMap = nat (width * height)"
  shows "\<forall>v\<in>set (verticalPass width height kern tempMap heightMap). 0 \<le> v \<and> v \<le> 1"
proof (rule in01_pixels[where w = width and h = height])
  show "0 < width" by fact
  show "length (verticalPass width height kern tempMap heightMap) = nat (width * height)"
    by (simp add: verticalPass_length assms(6))
  fix x y assume "0 \<le> x" "x < width" "0 \<le> y" "y < height"
  then show "0 \<le> verticalPass width height kern tempMap heightMap ! nat (y * width + x)
           \<and> verticalPass width height kern tempMap heightMap ! nat (y * width + x) \<le> 1"
    using colAvg_01[OF assms(2) _ _ assms(3,4,5), of x y] assms(6)
    by (simp add: verticalPass_nth)
qed

text \<open>
  With \<open>bezel \<noteq> 0\<close> every value of the height map is a number in \<open>[0, 1]\<close> at every
  stage: after the height profiler (which clamps), in the intermediate buffer after the
  horizontal erosion pass, and in the final height map after the vertical pass (or after
  the skipped erosion).
\<close>

lemma profileHeightJS_number:
  assumes "bezel \<noteq> 0 \<or> sdist \<noteq> 0"
  shows "profileHeightJS bezel profile sdist = Some (profileHeight bezel profile sdist)"
proof (cases "bezel = 0")
  case True
  with assms have "sdist \<noteq> 0" by simp
  with True show ?thesis
    by (simp add: profileHeightJS_def profileHeight_def slopeT_def Let_def)
next
  case False
  then show ?thesis
    by (simp add: profileHeightJS_def profileHeight_def slopeT_def Let_def)
qed

lemma storedHeight_number:
  assumes "bezel \<noteq> 0 \<or> pixelDist perm width height radius shape profile warp x y \<noteq> 0"
  shows "storedHeight perm width height radius bezel shape profile warp x y
           = Some (pixelHeight perm width height radius bezel shape profile warp x y)"
  using assms by (simp add: storedHeight_def pixelHeight_def Let_def profileHeightJS_number)

lemma storedHeight_NaN:
  assumes "bezel = 0" "pixelDist perm width height radius shape profile warp x y = 0"
  shows "storedHeight perm width height radius bezel shape profile warp x y = None"
  using assms by (simp add: storedHeight_def Let_def profileHeightJS_def slopeT_def)

lemma heightMap0_stored:
  assumes "0 \<le> x" "x < width" "0 \<le> y" "y < height" "bezel \<noteq> 0"
  shows "storedHeight perm width height radius bezel shape profile warp x y
           = Some (heightMap0 perm width height radius bezel shape profile warp
                     ! nat (y * width + x))"
  using assms by (simp add: storedHeight_number heightMap0_nth)

lemma heights_in_unit_interval:
  assumes "0 < width" "0 < height" "bezel \<noteq> 0"
  shows "(\<forall>v\<in>set (heightMap0 perm width height radius bezel shape profile warp). 0 \<le> v \<and> v \<le> 1)
       \<and> (\<forall>v\<in>set (horizontalPass width height (kernelOf tension)
                      (heightMap0 perm width height radius bezel shape profile warp)).
             0 \<le> v \<and> v \<le> 1)
       \<and> (\<forall>v\<in>set (finalHeightMap perm width height radius bezel shape profile tension warp).
             0 \<le> v \<and> v \<le> 1)"
proof -
  let ?hm = "heightMap0 perm width height radius bezel shape profile warp"
  let ?kern = "kernelOf tension"
  let ?tmp = "horizontalPass width height ?kern ?hm"
  have k: "0 \<le> ?kern" using kernelOf_pos[of tension] by simp
  have hm: "\<forall>v\<in>set ?hm. 0 \<le> v \<and> v \<le> 1" using assms(1) by (rule heightMap0_01)
  have tmp: "\<forall>v\<in>set ?tmp. 0 \<le> v \<and> v \<le> 1"
    using assms(1) k heightMap0_length hm by (rule horizontalPass_01)
  have "\<forall>v\<in>set (verticalPass width height ?kern ?tmp ?hm). 0 \<le> v \<and> v \<le> 1"
    using assms(1,2) k horizontalPass_length tmp heightMap0_length by (rule verticalPass_01)
  then have "\<forall>v\<in>set (finalHeightMap perm width height radius bezel shape profile tension warp).
      0 \<le> v \<and> v \<le> 1"
    using hm by (simp add: finalHeightMap_def erosion_def Let_def)
  with hm tmp show ?thesis by blast
qed

text \<open>
  Claim C5: every value stored in the height field lies in \<open>[0, 1]\<close>, the height profiler
  clamping each height before it stores it.  The source breaks this at \<open>bezel = 0\<close>, the
  lowest setting of the Bezel Width slider.  On a 4 by 4 rectangle with corner radius 0 the
  pixel \<open>(0, 0)\<close> has the distance 0, the quotient of line 195 is \<^verbatim>\<open>0 / 0\<close>, and line 207
  stores \<^verbatim>\<open>NaN\<close>, which is no value of \<open>[0, 1]\<close>.
\<close>

theorem C5_nan_at_zero_bezel:
  "pixelDist (constPerm 1) 4 4 0 Rect Convex 0 0 0 = 0
   \<and> slopeT 0 (pixelDist (constPerm 1) 4 4 0 Rect Convex 0 0 0) = None
   \<and> storedHeight (constPerm 1) 4 4 0 0 Rect Convex 0 0 0 = None"
proof -
  have d: "pixelDist (constPerm 1) 4 4 0 Rect Convex 0 0 0 = 0"
    by (simp add: pixelDist_def warpPoint_def sdf_def Let_def)
  then show ?thesis by (simp add: storedHeight_NaN slopeT_def)
qed

subsection \<open>Denominators\<close>

lemma normalLen_ge_1: "1 \<le> normalLen width height heightMap x y"
proof -
  have "1 \<le> sqrt (a * a + b * b + 1)" for a b :: real
  proof -
    have "0 \<le> a * a + b * b" by simp
    then have "sqrt 1 \<le> sqrt (a * a + b * b + 1)" by (intro real_sqrt_le_mono) simp
    then show ?thesis by simp
  qed
  then show ?thesis by (simp add: normalLen_def Let_def)
qed

lemma kernel_range_length: "0 \<le> kern \<Longrightarrow> real (length [- kern..kern]) = of_int (2 * kern + 1)"
  by simp

text \<open>
  Claim C7: with \<open>bezel > 0\<close>, \<open>width > 0\<close> and \<open>height > 0\<close> no division of the
  per-pixel computation is by zero.  The length \<^verbatim>\<open>len\<close> of the normal is at least 1; the
  kernel radius is \<open>max 1 \<lceil>tension\<rceil>\<close>, and the \<^verbatim>\<open>weight\<close> that each blur loop counts is
  \<open>2 * kernel + 1\<close>, at least 3; the remaining denominators are \<open>bezel\<close>,
  \<open>width / 2\<close> and \<open>height / 2\<close>.
\<close>

theorem C7_denominators_nonzero:
  assumes "0 < (bezel::real)" "0 < width" "0 < height"
  shows "1 \<le> normalLen width height heightMap x y
       \<and> kernelOf tension = max 1 \<lceil>tension\<rceil>
       \<and> snd (rowAcc width (kernelOf tension) heightMap x y) = of_int (2 * kernelOf tension + 1)
       \<and> snd (colAcc width height (kernelOf tension) tempMap x y) = of_int (2 * kernelOf tension + 1)
       \<and> 3 \<le> 2 * kernelOf tension + 1
       \<and> bezel \<noteq> 0
       \<and> (of_int width / 2 :: real) \<noteq> 0
       \<and> (of_int height / 2 :: real) \<noteq> 0"
proof -
  have k: "1 \<le> kernelOf tension" by (rule kernelOf_pos)
  then have "real (length [- kernelOf tension..kernelOf tension]) = of_int (2 * kernelOf tension + 1)"
    by (intro kernel_range_length) simp
  then have "snd (rowAcc width (kernelOf tension) heightMap x y) = of_int (2 * kernelOf tension + 1)"
    and "snd (colAcc width height (kernelOf tension) tempMap x y) = of_int (2 * kernelOf tension + 1)"
    by (simp_all only: rowAcc_eq colAcc_eq snd_conv)
  moreover have "3 \<le> 2 * kernelOf tension + 1" using k by simp
  moreover have "kernelOf tension = max 1 \<lceil>tension\<rceil>" by (simp add: kernelOf_def)
  moreover have "bezel \<noteq> 0" "(of_int width / 2 :: real) \<noteq> 0" "(of_int height / 2 :: real) \<noteq> 0"
    using assms by simp_all
  ultimately show ?thesis using normalLen_ge_1[of width height heightMap x y] by blast
qed

theorem C7_denominators_nonzero_witness:
  "1 \<le> normalLen 3 2 [0, 1 / 2, 1, 0, 1 / 2, 1] 1 1
   \<and> kernelOf (5 / 2) = 3
   \<and> snd (rowAcc 3 (kernelOf (5 / 2)) [0, 1 / 2, 1, 0, 1 / 2, 1] 1 1) = 7
   \<and> snd (colAcc 3 2 (kernelOf (5 / 2)) [0, 1 / 2, 1, 0, 1 / 2, 1] 1 1) = 7"
  using C7_denominators_nonzero [of 1 3 2 "[0, 1 / 2, 1, 0, 1 / 2, 1]" 1 1 "5 / 2"
      "[0, 1 / 2, 1, 0, 1 / 2, 1]"]
  by (simp add: kernelOf_def)

subsection \<open>Determinism without noise\<close>

lemma pixelHeight_perm_free:
  assumes "warp = 0" "profile \<noteq> Liquid"
  shows "pixelHeight perm1 width height radius bezel shape profile warp x y
           = pixelHeight perm2 width height radius bezel shape profile warp x y"
  using assms by (simp add: pixelHeight_def pixelDist_def warpPoint_def Let_def)

lemma heightMap0_perm_free:
  assumes "warp = 0" "profile \<noteq> Liquid"
  shows "heightMap0 perm1 width height radius bezel shape profile warp
           = heightMap0 perm2 width height radius bezel shape profile warp"
  unfolding heightMap0_def
  by (simp only: pixelHeight_perm_free[OF assms, of perm1 _ _ _ _ _ _ _ perm2])

text \<open>
  Claim C10: with \<open>warp = 0\<close> and a profile other than liquid the permutation table is
  never read: two calls that differ only in the table produce the same pixel buffer and the
  same result.
\<close>

theorem C10_deterministic_without_noise:
  assumes "warp = 0" "profile \<noteq> Liquid"
  shows "pixelData perm1 width height radius bezel shape profile tension warp
           = pixelData perm2 width height radius bezel shape profile tension warp
       \<and> generateGlassMaps host perm1 width height radius bezel shape profile tension warp
           = generateGlassMaps host perm2 width height radius bezel shape profile tension warp"
  using heightMap0_perm_free[OF assms, of perm1 width height radius bezel shape perm2]
  by (simp add: generateGlassMaps_eq pixelData_def finalHeightMap_def)

theorem C10_deterministic_without_noise_witness:
  "pixelData (constPerm 1) 3 2 0 1 Rect Convex 2 0 = pixelData (constPerm 7) 3 2 0 1 Rect Convex 2 0
   \<and> generateGlassMaps canvasHost (constPerm 1) 3 2 0 1 Rect Convex 2 0
       = generateGlassMaps canvasHost (constPerm 7) 3 2 0 1 Rect Convex 2 0"
  using C10_deterministic_without_noise [of 0 Convex "constPerm 1" 3 2 0 1 Rect 2 "constPerm 7" canvasHost]
  by simp

subsection \<open>Erosion of a locally constant height map\<close>

lemma avg_const:
  fixes g :: "int \<Rightarrow> real"
  assumes "ks \<noteq> []" and "\<And>k. k \<in> set ks \<Longrightarrow> g k = c"
  shows "sum_list (map g ks) / real (length ks) = c"
proof -
  have "map g ks = map (\<lambda>k. c) ks" using assms(2) by (intro map_cong) simp_all
  then have "sum_list (map g ks) = sum_list (map (\<lambda>k. c) ks)" by (simp only:)
  also have "\<dots> = real (length ks) * c" by (simp add: sum_list_triv)
  finally show ?thesis using assms(1) by simp
qed

lemma clamp_window:
  fixes x k kern n :: int
  assumes "0 \<le> x" "x < n" "- kern \<le> k" "k \<le> kern"
  shows "max 0 (x - kern) \<le> min (n - 1) (max 0 (x + k))"
    and "min (n - 1) (max 0 (x + k)) \<le> min (n - 1) (x + kern)"
    and "0 \<le> min (n - 1) (max 0 (x + k))"
    and "min (n - 1) (max 0 (x + k)) < n"
  using assms by auto

lemma finalHeightMap_window:
  assumes x: "0 \<le> x" "x < width" and y: "0 \<le> y" "y < height" and t: "0 < tension"
    and win: "\<And>x' y'. max 0 (x - kernelOf tension) \<le> x' \<Longrightarrow>
                x' \<le> min (width - 1) (x + kernelOf tension) \<Longrightarrow>
                max 0 (y - kernelOf tension) \<le> y' \<Longrightarrow>
                y' \<le> min (height - 1) (y + kernelOf tension) \<Longrightarrow>
                pixelHeight perm width height radius bezel shape profile warp x' y' = c"
  shows "finalHeightMap perm width height radius bezel shape profile tension warp
           ! nat (y * width + x) = c"
proof -
  let ?kern = "kernelOf tension"
  let ?hm = "heightMap0 perm width height radius bezel shape profile warp"
  let ?tmp = "horizontalPass width height ?kern ?hm"
  have k: "0 \<le> ?kern" using kernelOf_pos[of tension] by simp
  then have ne: "[- ?kern..?kern] \<noteq> []" by (rule kernel_range_nonempty)
  have row: "?tmp ! nat (py * width + x) = c"
    if py: "max 0 (y - ?kern) \<le> py" "py \<le> min (height - 1) (y + ?kern)" for py
  proof -
    have py': "0 \<le> py" "py < height" using py by simp_all
    have "?tmp ! nat (py * width + x)
            = fst (rowAcc width ?kern ?hm x py) / snd (rowAcc width ?kern ?hm x py)"
      using x py' by (rule horizontalPass_nth)
    also have "\<dots> = c"
      unfolding rowAcc_eq fst_conv snd_conv
    proof (rule avg_const[OF ne])
      fix k assume "k \<in> set [- ?kern..?kern]"
      then have kk: "- ?kern \<le> k" "k \<le> ?kern" by simp_all
      let ?px = "min (width - 1) (max 0 (x + k))"
      note cw = clamp_window[OF x kk]
      have "?hm ! nat (py * width + ?px)
              = pixelHeight perm width height radius bezel shape profile warp ?px py"
        using cw(3,4) py' by (rule heightMap0_nth)
      also have "\<dots> = c" using cw(1,2) py by (rule win)
      finally show "?hm ! nat (py * width + ?px) = c" .
    qed
    finally show ?thesis .
  qed
  have "verticalPass width height ?kern ?tmp ?hm ! nat (y * width + x)
          = fst (colAcc width height ?kern ?tmp x y) / snd (colAcc width height ?kern ?tmp x y)"
    using x y heightMap0_length by (rule verticalPass_nth)
  also have "\<dots> = c"
    unfolding colAcc_eq fst_conv snd_conv
  proof (rule avg_const[OF ne])
    fix k assume "k \<in> set [- ?kern..?kern]"
    then have kk: "- ?kern \<le> k" "k \<le> ?kern" by simp_all
    note cw = clamp_window[OF y kk]
    show "?tmp ! nat (min (height - 1) (max 0 (y + k)) * width + x) = c"
      using cw(1,2) by (rule row)
  qed
  finally show ?thesis using t by (simp add: finalHeightMap_def erosion_def Let_def)
qed

subsection \<open>The end-to-end example\<close>

lemma rectDist_noWarp:
  "pixelDist perm width height radius Rect Convex 0 x y
     = sdf width height radius Rect (of_int x) (of_int y)"
  by (simp add: pixelDist_def warpPoint_def Let_def)

lemma centre_window_height:
  assumes "48 \<le> x" "x \<le> 52" "48 \<le> y" "y \<le> 52"
  shows "pixelHeight perm 100 100 20 10 Rect Convex 0 x y = 1"
proof -
  have ax: "\<bar>real_of_int x - 50\<bar> \<le> 2" and ay: "\<bar>real_of_int y - 50\<bar> \<le> 2"
    using assms by (simp_all add: abs_le_iff)
  let ?dx = "\<bar>real_of_int x - 50\<bar> - 30" and ?dy = "\<bar>real_of_int y - 50\<bar> - 30"
  have mx: "max ?dx 0 = 0" "max ?dy 0 = 0" using ax ay by simp_all
  have "sdf 100 100 20 Rect (of_int x) (of_int y) = min (max ?dx ?dy) 0 - 20"
    using mx by (simp add: sdf_def Let_def)
  also have "\<dots> < - 10" using ax ay by simp
  finally have "pixelDist perm 100 100 20 Rect Convex 0 x y < - 10"
    by (simp add: rectDist_noWarp)
  then show ?thesis by (simp add: pixelHeight_def Let_def profileHeight_def)
qed

lemma corner_window_height:
  assumes "0 \<le> x" "x \<le> 2" "0 \<le> y" "y \<le> 2"
  shows "pixelHeight perm 100 100 20 10 Rect Convex 0 x y = 0"
proof -
  let ?dx = "\<bar>real_of_int x - 50\<bar> - 30" and ?dy = "\<bar>real_of_int y - 50\<bar> - 30"
  have dx: "?dx = 20 - real_of_int x" and dy: "?dy = 20 - real_of_int y"
    using assms by simp_all
  have bx: "18 \<le> ?dx" "18 \<le> ?dy" using assms by (simp_all add: dx dy)
  then have mx: "max ?dx 0 = ?dx" "max ?dy 0 = ?dy" by simp_all
  have "18\<^sup>2 \<le> ?dx\<^sup>2" "18\<^sup>2 \<le> ?dy\<^sup>2"
    by (rule power_mono[OF bx(1)], simp, rule power_mono[OF bx(2)], simp)
  then have "21\<^sup>2 < ?dx\<^sup>2 + ?dy\<^sup>2" by simp
  then have big: "21 < sqrt (?dx\<^sup>2 + ?dy\<^sup>2)" by (rule real_less_rsqrt)
  have "min (max ?dx ?dy) 0 = 0" using bx by simp
  then have "sdf 100 100 20 Rect (of_int x) (of_int y) = sqrt (?dx\<^sup>2 + ?dy\<^sup>2) - 20"
    using mx by (simp add: sdf_def Let_def)
  with big have "1 < pixelDist perm 100 100 20 Rect Convex 0 x y"
    by (simp add: rectDist_noWarp)
  then show ?thesis by (simp add: pixelHeight_def Let_def profileHeight_def)
qed

lemma kernelOf_2: "kernelOf 2 = 2"
  by (simp add: kernelOf_def)

lemma centre_final: "finalHeightMap perm 100 100 20 10 Rect Convex 2 0 ! nat (50 * 100 + 50) = 1"
proof (rule finalHeightMap_window)
  fix x' y' :: int
  assume "max 0 (50 - kernelOf 2) \<le> x'" "x' \<le> min (100 - 1) (50 + kernelOf 2)"
    "max 0 (50 - kernelOf 2) \<le> y'" "y' \<le> min (100 - 1) (50 + kernelOf 2)"
  then show "pixelHeight perm 100 100 20 10 Rect Convex 0 x' y' = 1"
    by (intro centre_window_height) (simp_all add: kernelOf_2)
qed simp_all

lemma corner_final: "finalHeightMap perm 100 100 20 10 Rect Convex 2 0 ! nat (0 * 100 + 0) = 0"
proof (rule finalHeightMap_window)
  fix x' y' :: int
  assume "max 0 (0 - kernelOf 2) \<le> x'" "x' \<le> min (100 - 1) (0 + kernelOf 2)"
    "max 0 (0 - kernelOf 2) \<le> y'" "y' \<le> min (100 - 1) (0 + kernelOf 2)"
  then show "pixelHeight perm 100 100 20 10 Rect Convex 0 x' y' = 0"
    by (intro corner_window_height) (simp_all add: kernelOf_2)
qed simp_all

text \<open>
  Claim C8: for the call with width 100, height 100, corner radius 20, bezel 10, the
  rectangle, the convex profile, tension 2 and warp 0, whatever the permutation table, the
  pixel \<open>(50, 50)\<close> has the alpha byte 255 and the blue byte 255, and the pixel
  \<open>(0, 0)\<close> has the alpha byte 0.  With a 2D context the result is the data URL of that
  buffer.
\<close>

theorem C8_end_to_end_example:
  "pixelData perm 100 100 20 10 Rect Convex 2 0 ! nat ((50 * 100 + 50) * 4 + 3) = 255
   \<and> pixelData perm 100 100 20 10 Rect Convex 2 0 ! nat ((50 * 100 + 50) * 4 + 2) = 255
   \<and> pixelData perm 100 100 20 10 Rect Convex 2 0 ! nat ((0 * 100 + 0) * 4 + 3) = 0
   \<and> surfaceUrl (generateGlassMaps canvasHost perm 100 100 20 10 Rect Convex 2 0)
       = toDataURL canvasHost 100 100 (pixelData perm 100 100 20 10 Rect Convex 2 0)"
proof -
  let ?hm = "finalHeightMap perm 100 100 20 10 Rect Convex 2 0"
  have a: "packPixels 100 100 ?hm ! nat ((50 * 100 + 50) * 4 + 3)
             = toUint8Clamp (if ?hm ! nat (50 * 100 + 50) > 0.01 then 255 else 0)"
    by (rule packPixels_alpha) simp_all
  have b: "packPixels 100 100 ?hm ! nat ((50 * 100 + 50) * 4 + 2)
             = toUint8Clamp (?hm ! nat (50 * 100 + 50) * 255)"
    by (rule packPixels_blue) simp_all
  have c: "packPixels 100 100 ?hm ! nat ((0 * 100 + 0) * 4 + 3)
             = toUint8Clamp (if ?hm ! nat (0 * 100 + 0) > 0.01 then 255 else 0)"
    by (rule packPixels_alpha) simp_all
  have "pixelData perm 100 100 20 10 Rect Convex 2 0 ! nat ((50 * 100 + 50) * 4 + 3) = 255"
    unfolding pixelData_def a centre_final by (simp add: toUint8Clamp_255)
  moreover have "pixelData perm 100 100 20 10 Rect Convex 2 0 ! nat ((50 * 100 + 50) * 4 + 2) = 255"
    unfolding pixelData_def b centre_final by (simp add: toUint8Clamp_255)
  moreover have "pixelData perm 100 100 20 10 Rect Convex 2 0 ! nat ((0 * 100 + 0) * 4 + 3) = 0"
    unfolding pixelData_def c corner_final by (simp add: toUint8Clamp_0)
  moreover have "surfaceUrl (generateGlassMaps canvasHost perm 100 100 20 10 Rect Convex 2 0)
       = toDataURL canvasHost 100 100 (pixelData perm 100 100 20 10 Rect Convex 2 0)"
    by (simp add: generateGlassMaps_eq canvasHost_def)
  ultimately show ?thesis by blast
qed

subsection \<open>Rectangle against squircle\<close>

lemma quartic_root:
  fixes t :: real
  assumes "0 \<le> t"
  shows "(t ^ 4) powr 0.25 = t"
proof -
  have "(t ^ 4) powr 0.25 = (t powr 4) powr (1 / 4)" using assms by simp
  also have "\<dots> = t powr 1" by (simp add: powr_powr)
  also have "\<dots> = t" using assms by simp
  finally show ?thesis .
qed

lemma quartic_root_less:
  fixes t v :: real
  assumes "0 \<le> t" "t ^ 4 < v"
  shows "t < v powr 0.25"
proof -
  have "(t ^ 4) powr 0.25 < v powr 0.25"
    using assms by (intro powr_less_mono2) simp_all
  then show ?thesis using assms(1) by (simp only: quartic_root)
qed

lemma quartic_root_le:
  fixes t v :: real
  assumes "0 \<le> t" "0 \<le> v" "v \<le> t ^ 4"
  shows "v powr 0.25 \<le> t"
proof -
  have "v powr 0.25 \<le> (t ^ 4) powr 0.25"
    using assms by (intro powr_mono2) simp_all
  then show ?thesis using assms(1) by (simp only: quartic_root)
qed

lemma two_quartic_root: "13 / 11 < (2::real) powr 0.25" "(2::real) powr 0.25 \<le> 2"
proof -
  show "13 / 11 < (2::real) powr 0.25" by (rule quartic_root_less) (simp_all add: power4_eq_xxxx)
  show "(2::real) powr 0.25 \<le> 2" by (rule quartic_root_le) simp_all
qed

lemma sdf_noWarp:
  assumes "profile \<noteq> Liquid"
  shows "pixelDist perm width height radius shape profile 0 x y
     = sdf width height radius shape (of_int x) (of_int y)"
  using assms by (simp add: pixelDist_def warpPoint_def Let_def)

text \<open>
  Corner radius 0 on a map of any proportions; \<open>a\<close> and \<open>b\<close> are half the width and
  half the height.
\<close>

lemma abs_div_pos:
  fixes a c :: real
  shows "0 < c \<Longrightarrow> \<bar>a / c\<bar> = \<bar>a\<bar> / c"
  by (simp add: abs_divide)

lemma sdf_rect_sharp:
  assumes "0 < a" "0 < b" "a = real_of_int width / 2" "b = real_of_int height / 2"
  shows "sdf width height 0 Rect tx ty
           = sqrt ((max (\<bar>tx - a\<bar> - a) 0)\<^sup>2 + (max (\<bar>ty - b\<bar> - b) 0)\<^sup>2)
             + min (max (\<bar>tx - a\<bar> - a) (\<bar>ty - b\<bar> - b)) 0"
proof -
  have "0 < real_of_int (min width height) / 2" using assms by (simp add: min_def)
  then have r: "min 0 (real_of_int (min width height) / 2) = 0" by simp
  show ?thesis unfolding sdf_def Let_def r assms(3,4)[symmetric] by simp
qed

lemma sdf_squircle_halves:
  assumes "0 < a" "0 < b" "a = real_of_int width / 2" "b = real_of_int height / 2"
  shows "sdf width height radius Squircle tx ty
           = (((\<bar>tx - a\<bar> / a) ^ 4 + (\<bar>ty - b\<bar> / b) ^ 4) powr 0.25 - 1) * min a b"
proof -
  have m: "real_of_int (min width height) / 2 = min a b"
    unfolding assms(3,4) by (simp add: min_def)
  have "sdf width height radius Squircle tx ty
          = ((\<bar>(tx - a) / a\<bar> ^ 4 + \<bar>(ty - b) / b\<bar> ^ 4) powr 0.25 - 1) * min a b"
    unfolding sdf_def Let_def m assms(3,4)[symmetric] by simp
  then show ?thesis by (simp only: abs_div_pos[OF assms(1)] abs_div_pos[OF assms(2)])
qed

text \<open>The corner pixel \<open>(0, 0)\<close> and its diagonal neighbour \<open>(1, 1)\<close>.\<close>

lemma sdf_rect_00:
  assumes "0 < width" "0 < height"
  shows "sdf width height 0 Rect 0 0 = 0"
proof -
  define a where "a = real_of_int width / 2"
  define b where "b = real_of_int height / 2"
  have ab: "0 < a" "0 < b" using assms by (simp_all add: a_def b_def)
  show ?thesis unfolding sdf_rect_sharp[OF ab a_def b_def] using ab by simp
qed

lemma sdf_squircle_00:
  assumes "0 < width" "0 < height"
  shows "sdf width height radius Squircle 0 0
           = (2 powr 0.25 - 1) * (real_of_int (min width height) / 2)"
proof -
  define a where "a = real_of_int width / 2"
  define b where "b = real_of_int height / 2"
  have ab: "0 < a" "0 < b" using assms by (simp_all add: a_def b_def)
  have m: "min a b = real_of_int (min width height) / 2"
    unfolding a_def b_def by (simp add: min_def)
  show ?thesis unfolding sdf_squircle_halves[OF ab a_def b_def] m using ab by simp
qed

lemma sdf_squircle_00_far:
  assumes "13 \<le> width" "13 \<le> height"
  shows "1 < sdf width height radius Squircle 0 0"
proof -
  have n: "13 \<le> real_of_int (min width height)" using assms by (simp add: min_def)
  have "1 < (2 / 11) * (real_of_int (min width height) / 2)" using n by simp
  also have "\<dots> \<le> (2 powr 0.25 - 1) * (real_of_int (min width height) / 2)"
    using two_quartic_root(1) n by (intro mult_right_mono) simp_all
  also have "\<dots> = sdf width height radius Squircle 0 0"
    using assms by (simp only: sdf_squircle_00)
  finally show ?thesis .
qed

lemma sdf_rect_11:
  assumes "2 \<le> width" "2 \<le> height"
  shows "sdf width height 0 Rect 1 1 = - 1"
proof -
  define a where "a = real_of_int width / 2"
  define b where "b = real_of_int height / 2"
  have ab: "1 \<le> a" "1 \<le> b" using assms by (simp_all add: a_def b_def)
  then have ab0: "0 < a" "0 < b" by simp_all
  have d: "\<bar>1 - a\<bar> - a = - 1" "\<bar>1 - b\<bar> - b = - 1" using ab by simp_all
  show ?thesis unfolding sdf_rect_sharp[OF ab0 a_def b_def] by (simp add: d)
qed

lemma near_one_quartic:
  fixes c :: real
  assumes "13 / 2 \<le> c"
  shows "14641 / 28561 \<le> (\<bar>1 - c\<bar> / c) ^ 4"
proof -
  have "\<bar>1 - c\<bar> / c = 1 - 1 / c" using assms by (simp add: field_simps)
  moreover have "1 / c \<le> 2 / 13" using assms by (simp add: field_simps)
  ultimately have t: "11 / 13 \<le> \<bar>1 - c\<bar> / c" by simp
  have "(11 / 13 :: real) ^ 4 \<le> (\<bar>1 - c\<bar> / c) ^ 4" using t by (intro power_mono) simp_all
  then show ?thesis by (simp add: power4_eq_xxxx)
qed

lemma sdf_squircle_11:
  assumes "13 \<le> width" "13 \<le> height"
  shows "0 < sdf width height radius Squircle 1 1"
proof -
  define a where "a = real_of_int width / 2"
  define b where "b = real_of_int height / 2"
  have ab: "13 / 2 \<le> a" "13 / 2 \<le> b" using assms by (simp_all add: a_def b_def)
  then have ab0: "0 < a" "0 < b" by simp_all
  define v where "v = (\<bar>1 - a\<bar> / a) ^ 4 + (\<bar>1 - b\<bar> / b) ^ 4"
  have "1 ^ 4 < v" unfolding v_def using near_one_quartic[OF ab(1)] near_one_quartic[OF ab(2)] by simp
  then have "1 < v powr 0.25" by (intro quartic_root_less) simp_all
  then have "0 < (v powr 0.25 - 1) * min a b" using ab0 by simp
  then show ?thesis unfolding sdf_squircle_halves[OF ab0 a_def b_def] v_def by simp
qed

text \<open>
  The centre pixel of a map of even width and height.  Every operation of the two distances
  is exact on doubles there: the normalised coordinates are 0, \<^verbatim>\<open>Math.pow\<close> of 0 is 0, and
  both distances are minus half the shorter side.
\<close>

lemma sdf_centre:
  assumes "0 < a" "0 < b"
  shows "sdf (2 * a) (2 * b) 0 Rect (of_int a) (of_int b) = - of_int (min a b)"
    and "sdf (2 * a) (2 * b) radius Squircle (of_int a) (of_int b) = - of_int (min a b)"
proof -
  have ab: "0 < real_of_int a" "0 < real_of_int b" using assms by simp_all
  have h: "real_of_int a = real_of_int (2 * a) / 2" "real_of_int b = real_of_int (2 * b) / 2"
    by simp_all
  have m: "min (real_of_int a) (real_of_int b) = of_int (min a b)" by (simp add: min_def)
  have "sdf (2 * a) (2 * b) 0 Rect (of_int a) (of_int b)
          = min (max (- real_of_int a) (- real_of_int b)) 0"
    unfolding sdf_rect_sharp[OF ab h] using ab by simp
  also have "\<dots> = - min (real_of_int a) (real_of_int b)" using ab by (simp add: min_def max_def)
  finally show "sdf (2 * a) (2 * b) 0 Rect (of_int a) (of_int b) = - of_int (min a b)"
    by (simp only: m)
  have "sdf (2 * a) (2 * b) radius Squircle (of_int a) (of_int b)
          = - min (real_of_int a) (real_of_int b)"
    unfolding sdf_squircle_halves[OF ab h] by simp
  then show "sdf (2 * a) (2 * b) radius Squircle (of_int a) (of_int b) = - of_int (min a b)"
    by (simp only: m)
qed

lemma pixelHeight_centre:
  assumes "0 < a" "0 < b" "profile \<noteq> Liquid"
  shows "pixelHeight perm (2 * a) (2 * b) 0 bezel Rect profile 0 a b
           = pixelHeight perm (2 * a) (2 * b) 0 bezel Squircle profile 0 a b"
  using assms by (simp add: pixelHeight_nonliquid sdf_noWarp sdf_centre)

text \<open>Heights at the two corner pixels.\<close>

lemma profileHeight_inner_pos:
  assumes "0 < bezel" "profile = Flat \<or> profile = Convex"
  shows "0 < profileHeight bezel profile (- 1)"
proof (cases "- 1 < - bezel")
  case True
  then show ?thesis by (simp add: profileHeight_def)
next
  case False
  define t where "t = max 0 (min 1 (1 / bezel))"
  have t: "0 < t" "t \<le> 1" using assms(1) by (simp_all add: t_def)
  have "0 \<le> 1 - t" "1 - t < 1" using t by simp_all
  then have "(1 - t) ^ 3 < 1 ^ 3" by (intro power_strict_mono) simp_all
  then have "0 < 1 - (1 - t) ^ 3" by simp
  moreover have "profileHeight bezel profile (- 1) = (if profile = Flat then t else 1 - (1 - t) ^ 3)"
    using False assms(2) by (auto simp add: profileHeight_def Let_def t_def)
  ultimately show ?thesis using t by simp
qed

lemma profileHeight_outer_zero:
  assumes "0 < bezel" "profile \<noteq> Concave" "0 < sdist"
  shows "profileHeight bezel profile sdist = 0"
proof (cases "sdist \<le> 1")
  case True
  with assms show ?thesis by (simp add: profileHeight_rim)
next
  case False
  with assms show ?thesis by (simp add: profileHeight_outside)
qed

lemma profileHeight_concave_0:
  assumes "0 < bezel"
  shows "profileHeight bezel Concave 0 = 1"
  using assms by (simp add: profileHeight_def Let_def)

lemma corner_heights_differ:
  assumes w: "13 \<le> width" and h: "13 \<le> height" and b: "0 < bezel" and p: "profile \<noteq> Liquid"
  shows "\<exists>x y. 0 \<le> x \<and> x \<le> 1 \<and> 0 \<le> y \<and> y \<le> 1
           \<and> pixelHeight perm width height 0 bezel Rect profile 0 x y
               \<noteq> pixelHeight perm width height 0 bezel Squircle profile 0 x y"
proof (cases "profile = Concave")
  case True
  have "pixelHeight perm width height 0 bezel Rect Concave 0 0 0 = 1"
    using w h b by (simp add: pixelHeight_nonliquid sdf_noWarp sdf_rect_00
        profileHeight_concave_0)
  moreover have "pixelHeight perm width height 0 bezel Squircle Concave 0 0 0 = 0"
    using sdf_squircle_00_far[OF w h, of 0] b
    by (simp add: pixelHeight_nonliquid sdf_noWarp profileHeight_outside)
  ultimately have "pixelHeight perm width height 0 bezel Rect profile 0 0 0
      \<noteq> pixelHeight perm width height 0 bezel Squircle profile 0 0 0"
    using True by simp
  then show ?thesis by (intro exI[of _ 0]) simp
next
  case False
  with p have fc: "profile = Flat \<or> profile = Convex" by (cases profile) simp_all
  have "0 < profileHeight bezel profile (- 1)" using b fc by (rule profileHeight_inner_pos)
  then have "0 < pixelHeight perm width height 0 bezel Rect profile 0 1 1"
    using w h p by (simp add: pixelHeight_nonliquid sdf_noWarp sdf_rect_11)
  moreover have "pixelHeight perm width height 0 bezel Squircle profile 0 1 1 = 0"
    using sdf_squircle_11[OF w h, of 0] b False p
    by (simp add: pixelHeight_nonliquid sdf_noWarp profileHeight_outer_zero)
  ultimately have "pixelHeight perm width height 0 bezel Rect profile 0 1 1
      \<noteq> pixelHeight perm width height 0 bezel Squircle profile 0 1 1"
    by simp
  then show ?thesis by (intro exI[of _ 1]) simp
qed

text \<open>
  Claim C9, amended: for identical width and height, corner radius 0, warp 0 and a profile
  other than liquid, the height maps that the two shapes produce (before erosion)
  \<^item> differ at the corner pixel \<open>(0, 0)\<close> or at its diagonal neighbour \<open>(1, 1)\<close> when
    width and height are at least 13 and \<open>0 < bezel \<le> 100\<close>, the range of the Bezel Width
    slider (the upper bound plays no part in the proof over the reals; it keeps the rectangle's
    height at \<open>(1, 1)\<close> away from 0 on doubles as well);
  \<^item> hold the same height at the centre pixel \<open>(width / 2, height / 2)\<close>, where the two
    midlines cross, when width and height are even.

  On the rest of the midlines the heights are not identical in general.  On a map that is
  not square the two distances differ along the longer axis, as the example after the
  theorem shows.  On a square map they are equal as real numbers, but the source computes
  the squircle's through \<^verbatim>\<open>Math.pow(Math.pow(a, 4), 0.25)\<close>, which need not return \<^verbatim>\<open>a\<close> on
  doubles, and a difference in the last bit is enough to change the branch of line 192.
\<close>

theorem C9_corner_and_centre:
  assumes "profile \<noteq> Liquid"
  shows "(13 \<le> width \<and> 13 \<le> height \<and> 0 < bezel \<and> bezel \<le> 100 \<longrightarrow>
            (\<exists>x y. 0 \<le> x \<and> x \<le> 1 \<and> 0 \<le> y \<and> y \<le> 1
               \<and> heightMap0 perm width height 0 bezel Rect profile 0 ! nat (y * width + x)
                   \<noteq> heightMap0 perm width height 0 bezel Squircle profile 0
                        ! nat (y * width + x)))
       \<and> (0 < a \<and> 0 < b \<and> width = 2 * a \<and> height = 2 * b \<longrightarrow>
            heightMap0 perm width height 0 bezel Rect profile 0 ! nat (b * width + a)
              = heightMap0 perm width height 0 bezel Squircle profile 0 ! nat (b * width + a))"
proof (intro conjI impI)
  assume "13 \<le> width \<and> 13 \<le> height \<and> 0 < bezel \<and> bezel \<le> 100"
  then have wh: "13 \<le> width" "13 \<le> height" and bz: "0 < bezel" by simp_all
  from corner_heights_differ[OF wh bz assms, of perm]
  obtain x y where xy: "0 \<le> x" "x \<le> 1" "0 \<le> y" "y \<le> 1"
    "pixelHeight perm width height 0 bezel Rect profile 0 x y
       \<noteq> pixelHeight perm width height 0 bezel Squircle profile 0 x y"
    by blast
  then have "x < width" "y < height" using wh by simp_all
  then have "heightMap0 perm width height 0 bezel Rect profile 0 ! nat (y * width + x)
      \<noteq> heightMap0 perm width height 0 bezel Squircle profile 0 ! nat (y * width + x)"
    using xy by (simp add: heightMap0_nth)
  with xy show "\<exists>x y. 0 \<le> x \<and> x \<le> 1 \<and> 0 \<le> y \<and> y \<le> 1
      \<and> heightMap0 perm width height 0 bezel Rect profile 0 ! nat (y * width + x)
          \<noteq> heightMap0 perm width height 0 bezel Squircle profile 0 ! nat (y * width + x)"
    by blast
next
  assume "0 < a \<and> 0 < b \<and> width = 2 * a \<and> height = 2 * b"
  then have ab: "0 < a" "0 < b" and wh: "width = 2 * a" "height = 2 * b" by simp_all
  have "0 \<le> a" "a < width" "0 \<le> b" "b < height" using ab wh by simp_all
  then show "heightMap0 perm width height 0 bezel Rect profile 0 ! nat (b * width + a)
      = heightMap0 perm width height 0 bezel Squircle profile 0 ! nat (b * width + a)"
    using pixelHeight_centre[OF ab assms, of perm bezel] by (simp add: heightMap0_nth wh)
qed

theorem C9_corner_and_centre_witness:
  "(\<exists>x y. 0 \<le> x \<and> x \<le> 1 \<and> 0 \<le> y \<and> y \<le> 1
       \<and> heightMap0 (constPerm 1) 14 20 0 2 Rect Convex 0 ! nat (y * 14 + x)
           \<noteq> heightMap0 (constPerm 1) 14 20 0 2 Squircle Convex 0 ! nat (y * 14 + x))
   \<and> heightMap0 (constPerm 1) 14 20 0 2 Rect Convex 0 ! nat (10 * 14 + 7)
       = heightMap0 (constPerm 1) 14 20 0 2 Squircle Convex 0 ! nat (10 * 14 + 7)"
  using C9_corner_and_centre [of Convex 14 20 2 "constPerm 1" 7 10] by simp

text \<open>
  Claim C9, as stated, fails in both of its parts.  On a 2 by 2 map with bezel 1 the two
  shapes give the same height map, so no pixel near a corner differs.  On a 10 by 20 map
  with bezel 10 the pixel \<open>(5, 5)\<close> lies on the vertical midline, and there the rectangle
  stores \<open>7 / 8\<close> and the squircle \<open>37 / 64\<close>.
\<close>

lemma heightMap0_shape_cong:
  assumes w: "0 < width"
    and px: "\<And>x y. 0 \<le> x \<Longrightarrow> x < width \<Longrightarrow> 0 \<le> y \<Longrightarrow> y < height \<Longrightarrow>
               pixelHeight perm width height radius bezel shape1 profile warp x y
                 = pixelHeight perm width height radius bezel shape2 profile warp x y"
  shows "heightMap0 perm width height radius bezel shape1 profile warp
           = heightMap0 perm width height radius bezel shape2 profile warp"
proof (rule nth_equalityI)
  show "length (heightMap0 perm width height radius bezel shape1 profile warp)
          = length (heightMap0 perm width height radius bezel shape2 profile warp)"
    by (simp add: heightMap0_length)
  fix i assume "i < length (heightMap0 perm width height radius bezel shape1 profile warp)"
  then have "i < nat (width * height)" by (simp add: heightMap0_length)
  then obtain x y where xy: "0 \<le> x" "x < width" "0 \<le> y" "y < height" "i = nat (y * width + x)"
    using idx_decomp[OF w] by blast
  then show "heightMap0 perm width height radius bezel shape1 profile warp ! i
      = heightMap0 perm width height radius bezel shape2 profile warp ! i"
    by (simp add: heightMap0_nth px)
qed

lemma tiny_square_heights:
  "pixelHeight perm 2 2 0 1 Rect Convex 0 0 0 = 0"
  "pixelHeight perm 2 2 0 1 Squircle Convex 0 0 0 = 0"
  "pixelHeight perm 2 2 0 1 Rect Convex 0 1 0 = 0"
  "pixelHeight perm 2 2 0 1 Squircle Convex 0 1 0 = 0"
  "pixelHeight perm 2 2 0 1 Rect Convex 0 0 1 = 0"
  "pixelHeight perm 2 2 0 1 Squircle Convex 0 0 1 = 0"
  "pixelHeight perm 2 2 0 1 Rect Convex 0 1 1 = 1"
  "pixelHeight perm 2 2 0 1 Squircle Convex 0 1 1 = 1"
proof -
  have d: "0 < sdf 2 2 0 Squircle 0 0" "sdf 2 2 0 Squircle 0 0 \<le> 1"
    using two_quartic_root by (simp_all add: sdf_squircle_00)
  show "pixelHeight perm 2 2 0 1 Squircle Convex 0 0 0 = 0"
    using d by (simp add: pixelHeight_nonliquid sdf_noWarp profileHeight_rim)
  show "pixelHeight perm 2 2 0 1 Rect Convex 0 0 0 = 0"
    by (simp add: pixelHeight_nonliquid sdf_noWarp sdf_rect_00 profileHeight_def)
  show "pixelHeight perm 2 2 0 1 Rect Convex 0 1 0 = 0"
    "pixelHeight perm 2 2 0 1 Squircle Convex 0 1 0 = 0"
    "pixelHeight perm 2 2 0 1 Rect Convex 0 0 1 = 0"
    "pixelHeight perm 2 2 0 1 Squircle Convex 0 0 1 = 0"
    "pixelHeight perm 2 2 0 1 Rect Convex 0 1 1 = 1"
    "pixelHeight perm 2 2 0 1 Squircle Convex 0 1 1 = 1"
    by (simp_all add: pixelHeight_nonliquid sdf_noWarp sdf_def Let_def profileHeight_def)
qed

lemma tiny_square_same_heights:
  "heightMap0 perm 2 2 0 1 Rect Convex 0 = heightMap0 perm 2 2 0 1 Squircle Convex 0"
proof (rule heightMap0_shape_cong)
  fix x y :: int
  assume "0 \<le> x" "x < 2" "0 \<le> y" "y < 2"
  then have "(x = 0 \<or> x = 1) \<and> (y = 0 \<or> y = 1)" by auto
  then show "pixelHeight perm 2 2 0 1 Rect Convex 0 x y
      = pixelHeight perm 2 2 0 1 Squircle Convex 0 x y"
    by (auto simp add: tiny_square_heights)
qed simp

lemma sixteenth_quartic_root: "(1 / 16 :: real) powr (1 / 4) = 1 / 2"
proof -
  have "((1 / 2 :: real) ^ 4) powr 0.25 = 1 / 2" by (rule quartic_root) simp
  then show ?thesis by (simp add: power4_eq_xxxx)
qed

lemma tall_rect_midline: "pixelHeight perm 10 20 0 10 Rect Convex 0 5 5 = 7 / 8"
  by (simp add: pixelHeight_nonliquid sdf_noWarp sdf_def Let_def profileHeight_def
      power3_eq_cube)

lemma tall_squircle_midline: "pixelHeight perm 10 20 0 10 Squircle Convex 0 5 5 = 37 / 64"
  by (simp add: pixelHeight_nonliquid sdf_noWarp sdf_def Let_def profileHeight_def
      power3_eq_cube power4_eq_xxxx sixteenth_quartic_root)

theorem C9_counterexample:
  "heightMap0 (constPerm 1) 2 2 0 1 Rect Convex 0 = heightMap0 (constPerm 1) 2 2 0 1 Squircle Convex 0
   \<and> 2 * 5 = (10::int)
   \<and> heightMap0 (constPerm 1) 10 20 0 10 Rect Convex 0 ! nat (5 * 10 + 5) = 7 / 8
   \<and> heightMap0 (constPerm 1) 10 20 0 10 Squircle Convex 0 ! nat (5 * 10 + 5) = 37 / 64"
proof -
  have "heightMap0 (constPerm 1) 10 20 0 10 Rect Convex 0 ! nat (5 * 10 + 5)
          = pixelHeight (constPerm 1) 10 20 0 10 Rect Convex 0 5 5"
    by (rule heightMap0_nth) simp_all
  moreover have "heightMap0 (constPerm 1) 10 20 0 10 Squircle Convex 0 ! nat (5 * 10 + 5)
          = pixelHeight (constPerm 1) 10 20 0 10 Squircle Convex 0 5 5"
    by (rule heightMap0_nth) simp_all
  ultimately show ?thesis
    by (simp only: tiny_square_same_heights tall_rect_midline tall_squircle_midline) simp
qed

end
